theory Spec2Isabelle
  imports Main "HOL-Library.Char_ord" "HOL-Library.List_Lexorder"
begin

section \<open>JSON values and the Python operations the program applies to them\<close>

text \<open>
  The program keeps every API object as the value \<^verbatim>\<open>response.json()\<close> returned: dictionaries,
  lists, strings, numbers, booleans and \<^verbatim>\<open>None\<close>. A dictionary is an association list in
  insertion order (its keys are distinct in every value the program builds). Numbers are the
  integers; JSON numbers with a fraction are outside the model.
\<close>

datatype json =
    JNull
  | JBool bool
  | JInt int
  | JStr string
  | JList "json list"
  | JDict "(string \<times> json) list"

text \<open>The exceptions the program can raise; \<open>HTTPError\<close> carries the status code.\<close>

datatype error =
    KeyError
  | TypeError
  | AttributeError
  | ValueError
  | HTTPError int
  | FileNotFoundError

text \<open>Python truthiness (\<^verbatim>\<open>if x\<close>, \<^verbatim>\<open>not x\<close>, \<^verbatim>\<open>x or y\<close>).\<close>

fun truthy :: "json \<Rightarrow> bool" where
  "truthy JNull = False"
| "truthy (JBool b) = b"
| "truthy (JInt n) = (n \<noteq> 0)"
| "truthy (JStr s) = (s \<noteq> [])"
| "truthy (JList xs) = (xs \<noteq> [])"
| "truthy (JDict d) = (d \<noteq> [])"

text \<open>\<^verbatim>\<open>x.get(k, default)\<close>: only a dictionary has the method.\<close>

fun py_get :: "json \<Rightarrow> string \<Rightarrow> json \<Rightarrow> error + json" where
  "py_get (JDict d) k dflt = Inr (case map_of d k of Some v \<Rightarrow> v | None \<Rightarrow> dflt)"
| "py_get _ k dflt = Inl AttributeError"

text \<open>\<^verbatim>\<open>x[k]\<close> with a string key \<open>k\<close>.\<close>

fun py_getitem :: "json \<Rightarrow> string \<Rightarrow> error + json" where
  "py_getitem (JDict d) k = (case map_of d k of Some v \<Rightarrow> Inr v | None \<Rightarrow> Inl KeyError)"
| "py_getitem _ k = Inl TypeError"

text \<open>\<^verbatim>\<open>for x in v\<close>: a list gives its elements, a dictionary its keys, a string its characters.\<close>

fun py_iter :: "json \<Rightarrow> error + json list" where
  "py_iter (JList xs) = Inr xs"
| "py_iter (JDict d) = Inr (map (\<lambda>kv. JStr (fst kv)) d)"
| "py_iter (JStr s) = Inr (map (\<lambda>c. JStr [c]) s)"
| "py_iter _ = Inl TypeError"

text \<open>The numeric value of a number or a boolean (\<^verbatim>\<open>bool\<close> is a subclass of \<^verbatim>\<open>int\<close>).\<close>

fun num_val :: "json \<Rightarrow> int option" where
  "num_val (JInt n) = Some n"
| "num_val (JBool b) = Some (if b then 1 else 0)"
| "num_val _ = None"

text \<open>\<^verbatim>\<open>a == b\<close>.\<close>

fun py_eq :: "json \<Rightarrow> json \<Rightarrow> bool"
  and py_eq_list :: "json list \<Rightarrow> json list \<Rightarrow> bool"
  and py_eq_items :: "(string \<times> json) list \<Rightarrow> (string \<times> json) list \<Rightarrow> bool" where
  "py_eq JNull b = (b = JNull)"
| "py_eq (JBool x) b = (num_val b = Some (if x then 1 else 0))"
| "py_eq (JInt n) b = (num_val b = Some n)"
| "py_eq (JStr s) b = (b = JStr s)"
| "py_eq (JList xs) b = (case b of JList ys \<Rightarrow> py_eq_list xs ys | _ \<Rightarrow> False)"
| "py_eq (JDict d) b =
     (case b of JDict e \<Rightarrow> length d = length e \<and> py_eq_items d e | _ \<Rightarrow> False)"
| "py_eq_list [] ys = (ys = [])"
| "py_eq_list (x # xs) ys =
     (case ys of [] \<Rightarrow> False | y # ys' \<Rightarrow> py_eq x y \<and> py_eq_list xs ys')"
| "py_eq_items [] e = True"
| "py_eq_items (kv # d) e =
     (case map_of e (fst kv) of None \<Rightarrow> False
      | Some v' \<Rightarrow> py_eq (snd kv) v' \<and> py_eq_items d e)"

text \<open>\<^verbatim>\<open>x in [y1, ..., yn]\<close>.\<close>

definition py_in :: "json \<Rightarrow> json list \<Rightarrow> bool" where
  "py_in x ys = list_ex (\<lambda>y. py_eq y x) ys"

text \<open>
  \<^verbatim>\<open>a < b\<close>: strings compare lexicographically by character code, numbers by value, lists
  at the first position where they differ; every other pair raises \<^verbatim>\<open>TypeError\<close>.
\<close>

fun py_lt :: "json \<Rightarrow> json \<Rightarrow> error + bool"
  and py_lt_list :: "json list \<Rightarrow> json list \<Rightarrow> error + bool" where
  "py_lt (JStr a) b = (case b of JStr c \<Rightarrow> Inr (a < c) | _ \<Rightarrow> Inl TypeError)"
| "py_lt (JInt n) b = (case num_val b of Some m \<Rightarrow> Inr (n < m) | None \<Rightarrow> Inl TypeError)"
| "py_lt (JBool x) b =
     (case num_val b of Some m \<Rightarrow> Inr ((if x then 1 else 0) < m) | None \<Rightarrow> Inl TypeError)"
| "py_lt (JList xs) b = (case b of JList ys \<Rightarrow> py_lt_list xs ys | _ \<Rightarrow> Inl TypeError)"
| "py_lt JNull b = Inl TypeError"
| "py_lt (JDict d) b = Inl TypeError"
| "py_lt_list [] ys = Inr (ys \<noteq> [])"
| "py_lt_list (x # xs) ys =
     (case ys of [] \<Rightarrow> Inr False
      | y # ys' \<Rightarrow> if py_eq x y then py_lt_list xs ys' else py_lt x y)"

text \<open>
  \<^verbatim>\<open>min(xs, key=f)\<close>: the first item's key is taken, then every later item replaces the
  current minimum only when its key is strictly smaller, so the first minimal item wins.
\<close>

fun min_loop :: "(json \<Rightarrow> error + json) \<Rightarrow> json list \<Rightarrow> json \<Rightarrow> json \<Rightarrow> error + json" where
  "min_loop f [] item val = Inr item"
| "min_loop f (x # xs) item val =
     (case f x of
        Inl e \<Rightarrow> Inl e
      | Inr v \<Rightarrow>
          (case py_lt v val of
             Inl e \<Rightarrow> Inl e
           | Inr b \<Rightarrow> if b then min_loop f xs x v else min_loop f xs item val))"

definition py_min_key :: "(json \<Rightarrow> error + json) \<Rightarrow> json list \<Rightarrow> error + json" where
  "py_min_key f xs =
     (case xs of
        [] \<Rightarrow> Inl ValueError
      | x # rest \<Rightarrow> (case f x of Inl e \<Rightarrow> Inl e | Inr v \<Rightarrow> min_loop f rest x v))"

text \<open>A list comprehension \<^verbatim>\<open>[x for x in xs if p(x)]\<close> whose condition may raise.\<close>

fun filter_e :: "('a \<Rightarrow> error + bool) \<Rightarrow> 'a list \<Rightarrow> error + 'a list" where
  "filter_e p [] = Inr []"
| "filter_e p (x # xs) =
     (case p x of
        Inl e \<Rightarrow> Inl e
      | Inr b \<Rightarrow>
          (case filter_e p xs of
             Inl e \<Rightarrow> Inl e
           | Inr ys \<Rightarrow> Inr (if b then x # ys else ys)))"

text \<open>A list comprehension \<^verbatim>\<open>[f(x) for x in xs]\<close> whose body may raise.\<close>

fun map_e :: "('a \<Rightarrow> error + 'b) \<Rightarrow> 'a list \<Rightarrow> error + 'b list" where
  "map_e f [] = Inr []"
| "map_e f (x # xs) =
     (case f x of
        Inl e \<Rightarrow> Inl e
      | Inr y \<Rightarrow> (case map_e f xs of Inl e \<Rightarrow> Inl e | Inr ys \<Rightarrow> Inr (y # ys)))"


section \<open>The derived timestamps of \<^verbatim>\<open>PRStatsGenerator\<close>\<close>

text \<open>
  \<^verbatim>\<open>_get_request_to_review_timestamp\<close>. The loop over the timeline returns at the first
  event whose kind is one of the two names; \<open>scan_timeline\<close> is that loop, \<open>None\<close> when it
  runs to the end of the list.
\<close>

fun scan_timeline :: "json list \<Rightarrow> (error + json) option" where
  "scan_timeline [] = None"
| "scan_timeline (event # rest) =
     (case py_get event ''event'' JNull of
        Inl e \<Rightarrow> Some (Inl e)
      | Inr k \<Rightarrow>
          if py_in k [JStr ''ready_for_review'', JStr ''review_requested'']
          then Some (py_get event ''created_at'' JNull)
          else scan_timeline rest)"

definition get_request_to_review_timestamp :: "json \<Rightarrow> json \<Rightarrow> error + json" where
  "get_request_to_review_timestamp pr timeline =
     (case py_get pr ''draft'' (JBool False) of
        Inl e \<Rightarrow> Inl e
      | Inr draft \<Rightarrow>
          if \<not> truthy draft then py_getitem pr ''created_at''
          else
            (case py_iter timeline of
               Inl e \<Rightarrow> Inl e
             | Inr events \<Rightarrow>
                 (case scan_timeline events of
                    Some r \<Rightarrow> r
                  | None \<Rightarrow> py_getitem pr ''created_at'')))"

text \<open>\<^verbatim>\<open>_get_approval_timestamp\<close>.\<close>

definition is_approved :: "json \<Rightarrow> error + bool" where
  "is_approved r =
     (case py_get r ''state'' JNull of
        Inl e \<Rightarrow> Inl e
      | Inr s \<Rightarrow> Inr (py_eq s (JStr ''APPROVED'')))"

definition submitted_at_key :: "json \<Rightarrow> error + json" where
  "submitted_at_key x = py_getitem x ''submitted_at''"

definition get_approval_timestamp :: "json list \<Rightarrow> error + json" where
  "get_approval_timestamp reviews =
     (case filter_e is_approved reviews of
        Inl e \<Rightarrow> Inl e
      | Inr approved_reviews \<Rightarrow>
          if approved_reviews \<noteq> [] then
            (case py_min_key submitted_at_key approved_reviews of
               Inl e \<Rightarrow> Inl e
             | Inr m \<Rightarrow> py_getitem m ''submitted_at'')
          else Inr JNull)"

text \<open>\<^verbatim>\<open>_get_review_given_timestamp\<close>.\<close>

definition is_substantive :: "json \<Rightarrow> error + bool" where
  "is_substantive r =
     (case py_get r ''state'' JNull of
        Inl e \<Rightarrow> Inl e
      | Inr s \<Rightarrow>
          if py_in s [JStr ''REQUEST_CHANGES'', JStr ''COMMENT''] then Inr True
          else if py_eq s (JStr ''APPROVED'') then
            (case py_get r ''body'' JNull of Inl e \<Rightarrow> Inl e | Inr b \<Rightarrow> Inr (truthy b))
          else Inr False)"

definition get_review_given_timestamp :: "json list \<Rightarrow> error + json" where
  "get_review_given_timestamp reviews =
     (case filter_e is_substantive reviews of
        Inl e \<Rightarrow> Inl e
      | Inr substantive_reviews \<Rightarrow>
          if substantive_reviews \<noteq> [] then
            (case py_min_key submitted_at_key substantive_reviews of
               Inl e \<Rightarrow> Inl e
             | Inr m \<Rightarrow> py_getitem m ''submitted_at'')
          else Inr JNull)"

section \<open>The API client\<close>

text \<open>
  \<^verbatim>\<open>d[k] = v\<close> on a dictionary: the value is replaced in place when the key is there,
  and the pair is added at the end otherwise.
\<close>

fun dict_set :: "'k \<Rightarrow> 'v \<Rightarrow> ('k \<times> 'v) list \<Rightarrow> ('k \<times> 'v) list" where
  "dict_set k v [] = [(k, v)]"
| "dict_set k v (p # ps) = (if fst p = k then (k, v) # ps else p # dict_set k v ps)"

text \<open>
  The URLs the client builds. Each constructor stands for one f-string over the base URL
  \<^verbatim>\<open>https://api.github.com\<close>, with its holes kept apart (owner, repository, and the pull
  request or issue number as the JSON value the program holds):
  \<^verbatim>\<open>/repos/{owner}/{repo}/pulls\<close>, \<^verbatim>\<open>.../pulls/{n}/reviews\<close>, \<^verbatim>\<open>.../pulls/{n}/comments\<close>,
  \<^verbatim>\<open>.../issues/{n}/comments\<close>, \<^verbatim>\<open>.../issues/{n}/timeline\<close>, \<^verbatim>\<open>.../pulls/{n}/commits\<close>.
\<close>

datatype url =
    PullsUrl string string
  | ReviewsUrl string string json
  | CommentsUrl string string json
  | IssueCommentsUrl string string json
  | TimelineUrl string string json
  | CommitsUrl string string json

text \<open>
  One GET request as \<^verbatim>\<open>session.get\<close> sends it: the URL, the \<^verbatim>\<open>params\<close> argument
  (\<open>None\<close> when the call passes none) and the headers, those of the session overridden by
  those of the call.
\<close>

record request =
  req_url :: url
  req_params :: "(string \<times> json) list option"
  req_headers :: "(string \<times> string) list"

text \<open>
  The \<^verbatim>\<open>X-RateLimit-Reset\<close> header of a response, as \<^verbatim>\<open>int(headers.get(..., 0))\<close> reads it:
  absent, a text that \<^verbatim>\<open>int\<close> parses, or a text on which \<^verbatim>\<open>int\<close> raises \<^verbatim>\<open>ValueError\<close>.
\<close>

datatype reset_header = NoHeader | IntHeader int | BadHeader

text \<open>
  A response: its status, its body as \<^verbatim>\<open>response.json()\<close> decodes it (\<open>None\<close> when the
  body is not JSON and the call raises), and the rate-limit header.
\<close>

record response =
  status_code :: int
  body :: "json option"
  rate_limit_reset :: reset_header

text \<open>What the program does to the outside, in order: requests sent and sleeps taken.\<close>

datatype io_event = Get request | Sleep int

text \<open>
  The messages logged at warning and error level, with the values their f-strings
  interpolate. Messages at info level are not recorded.
\<close>

datatype log_entry =
    RateLimitedSleeping int
  | ResourceNotFound url
  | ErrorProcessingPR json error

record world =
  trace :: "io_event list"
  logged :: "log_entry list"

text \<open>
  The outside: the service's answer to a request, the clock \<^verbatim>\<open>int(time.time())\<close> and the
  text of \<^verbatim>\<open>datetime.now(timezone.utc).isoformat()\<close>, each a function of what has happened
  so far. \<^verbatim>\<open>session.get\<close> always comes back with a response.
\<close>

record env =
  server :: "io_event list \<Rightarrow> request \<Rightarrow> response"
  clock :: "io_event list \<Rightarrow> int"
  utc_now :: "io_event list \<Rightarrow> string"

text \<open>\<^verbatim>\<open>GitHubAPIClient.__init__\<close>: the token and the headers set on the session.\<close>

record github_client =
  token :: string
  session_headers :: "(string \<times> string) list"

definition GitHubAPIClient :: "string \<Rightarrow> github_client" where
  "GitHubAPIClient tok =
     \<lparr>token = tok,
      session_headers =
        [(''Authorization'', ''token '' @ tok),
         (''Accept'', ''application/vnd.github.v3+json''),
         (''User-Agent'', ''GitHub-PR-Stats-Generator'')]\<rparr>"

definition sent :: "world \<Rightarrow> request \<Rightarrow> world" where
  "sent w req = w\<lparr>trace := trace w @ [Get req]\<rparr>"

definition slept :: "world \<Rightarrow> int \<Rightarrow> world" where
  "slept w secs = w\<lparr>trace := trace w @ [Sleep secs]\<rparr>"

definition log_msg :: "world \<Rightarrow> log_entry \<Rightarrow> world" where
  "log_msg w m = w\<lparr>logged := logged w @ [m]\<rparr>"

text \<open>The request \<^verbatim>\<open>self.session.get(url, params=params)\<close> of \<^verbatim>\<open>_make_request\<close>.\<close>

definition api_request :: "github_client \<Rightarrow> url \<Rightarrow> (string \<times> json) list option \<Rightarrow> request" where
  "api_request client u params =
     \<lparr>req_url = u, req_params = params, req_headers = session_headers client\<rparr>"

text \<open>\<^verbatim>\<open>response.json()\<close>.\<close>

definition response_json :: "response \<Rightarrow> error + json" where
  "response_json r = (case body r of Some j \<Rightarrow> Inr j | None \<Rightarrow> Inl ValueError)"

text \<open>
  \<^verbatim>\<open>response.raise_for_status()\<close> raises for a status from 400 to 599 and returns
  otherwise.
\<close>

definition raises_for_status :: "response \<Rightarrow> bool" where
  "raises_for_status r = (400 \<le> status_code r \<and> status_code r < 600)"

text \<open>
  \<^verbatim>\<open>_make_request\<close>. The \<^verbatim>\<open>while True\<close> loop may run forever, so the function is partial:
  \<open>None\<close> is the run that never returns.
\<close>

partial_function (option) make_request ::
  "env \<Rightarrow> github_client \<Rightarrow> url \<Rightarrow> (string \<times> json) list option \<Rightarrow> world
    \<Rightarrow> ((error + json) \<times> world) option" where
  "make_request e client u params w =
     (let response = server e (trace w) (api_request client u params);
          w1 = sent w (api_request client u params)
      in
        if status_code response = 200 then Some (response_json response, w1)
        else if status_code response = 403 then
          (case rate_limit_reset response of
             BadHeader \<Rightarrow> Some (Inl ValueError, w1)
           | hdr \<Rightarrow>
               (let reset_time = (case hdr of IntHeader t \<Rightarrow> t | _ \<Rightarrow> 0);
                    current_time = clock e (trace w1);
                    sleep_time = max (reset_time - current_time + 60) 60
                in make_request e client u params
                     (slept (log_msg w1 (RateLimitedSleeping sleep_time)) sleep_time)))
        else if status_code response = 404 then
          Some (Inr (JDict []), log_msg w1 (ResourceNotFound u))
        else if raises_for_status response then
          Some (Inl (HTTPError (status_code response)), w1)
        else make_request e client u params w1)"

text \<open>
  \<^verbatim>\<open>_paginate\<close>. \<open>page_params\<close> is the dictionary \<^verbatim>\<open>params\<close> after the two assignments
  at the head of the loop body. \<open>paginate_loop\<close> is the \<^verbatim>\<open>while True\<close> loop, with the
  dictionary as the earlier iterations left it, the page number and the results so far.
\<close>

definition page_params :: "int \<Rightarrow> (string \<times> json) list \<Rightarrow> (string \<times> json) list" where
  "page_params page params =
     dict_set ''per_page'' (JInt 100) (dict_set ''page'' (JInt page) params)"

partial_function (option) paginate_loop ::
  "env \<Rightarrow> github_client \<Rightarrow> url \<Rightarrow> (string \<times> json) list \<Rightarrow> int \<Rightarrow> json list \<Rightarrow> world
    \<Rightarrow> ((error + json list) \<times> world) option" where
  "paginate_loop e client u params page results w =
     (case make_request e client u (Some (page_params page params)) w of
        None \<Rightarrow> None
      | Some (Inl err, w1) \<Rightarrow> Some (Inl err, w1)
      | Some (Inr data, w1) \<Rightarrow>
          (case data of
             JList items \<Rightarrow>
               if items = [] then Some (Inr results, w1)
               else if length items < 100 then Some (Inr (results @ items), w1)
               else paginate_loop e client u (page_params page params) (page + 1)
                      (results @ items) w1
           | _ \<Rightarrow> Some (Inr results, w1)))"

definition paginate ::
  "env \<Rightarrow> github_client \<Rightarrow> url \<Rightarrow> (string \<times> json) list option \<Rightarrow> world
    \<Rightarrow> ((error + json list) \<times> world) option" where
  "paginate e client u params w =
     paginate_loop e client u (case params of None \<Rightarrow> [] | Some p \<Rightarrow> p) 1 [] w"

text \<open>The accessors.\<close>

definition get_pull_requests ::
  "env \<Rightarrow> github_client \<Rightarrow> string \<Rightarrow> string \<Rightarrow> string \<Rightarrow> world
    \<Rightarrow> ((error + json list) \<times> world) option" where
  "get_pull_requests e client owner repo state w =
     paginate e client (PullsUrl owner repo) (Some [(''state'', JStr state)]) w"

definition get_pr_reviews ::
  "env \<Rightarrow> github_client \<Rightarrow> string \<Rightarrow> string \<Rightarrow> json \<Rightarrow> world
    \<Rightarrow> ((error + json list) \<times> world) option" where
  "get_pr_reviews e client owner repo pr_number w =
     paginate e client (ReviewsUrl owner repo pr_number) None w"

definition get_pr_comments ::
  "env \<Rightarrow> github_client \<Rightarrow> string \<Rightarrow> string \<Rightarrow> json \<Rightarrow> world
    \<Rightarrow> ((error + json list) \<times> world) option" where
  "get_pr_comments e client owner repo pr_number w =
     paginate e client (CommentsUrl owner repo pr_number) None w"

definition get_issue_comments ::
  "env \<Rightarrow> github_client \<Rightarrow> string \<Rightarrow> string \<Rightarrow> json \<Rightarrow> world
    \<Rightarrow> ((error + json list) \<times> world) option" where
  "get_issue_comments e client owner repo issue_number w =
     paginate e client (IssueCommentsUrl owner repo issue_number) None w"

definition get_pr_commits ::
  "env \<Rightarrow> github_client \<Rightarrow> string \<Rightarrow> string \<Rightarrow> json \<Rightarrow> world
    \<Rightarrow> ((error + json list) \<times> world) option" where
  "get_pr_commits e client owner repo pr_number w =
     paginate e client (CommitsUrl owner repo pr_number) None w"

text \<open>
  \<^verbatim>\<open>get_pr_timeline\<close> calls \<^verbatim>\<open>session.get\<close> itself, with its own \<^verbatim>\<open>Accept\<close> header and no
  \<^verbatim>\<open>params\<close>; every status other than 200 gives the empty list.
\<close>

definition timeline_request :: "github_client \<Rightarrow> string \<Rightarrow> string \<Rightarrow> json \<Rightarrow> request" where
  "timeline_request client owner repo issue_number =
     \<lparr>req_url = TimelineUrl owner repo issue_number,
      req_params = None,
      req_headers =
        dict_set ''Accept'' ''application/vnd.github.mockingbird-preview+json''
          (session_headers client)\<rparr>"

definition get_pr_timeline ::
  "env \<Rightarrow> github_client \<Rightarrow> string \<Rightarrow> string \<Rightarrow> json \<Rightarrow> world \<Rightarrow> (error + json) \<times> world" where
  "get_pr_timeline e client owner repo issue_number w =
     (let response = server e (trace w) (timeline_request client owner repo issue_number);
          w1 = sent w (timeline_request client owner repo issue_number)
      in
        if status_code response = 200 then (response_json response, w1)
        else (Inr (JList []), w1))"

section \<open>The statistics generator\<close>

text \<open>The dataclasses \<^verbatim>\<open>PullRequest\<close>, \<^verbatim>\<open>PullRequestStats\<close> and \<^verbatim>\<open>RepositoryStats\<close>.\<close>

record pull_request =
  created_at :: json
  updated_at :: json
  closed_at :: json
  merged_at :: json
  author :: json
  number :: json
  title :: json

record pull_request_stats =
  pr_meta :: pull_request
  request_to_review_timestamp :: json
  pr_approved_timestamp :: json
  review_given_timestamp :: json
  reviews :: "json list"
  timeline :: "json list"

record repository_stats =
  repository :: "(string \<times> string) list"
  generated_at :: string
  pull_requests :: "pull_request_stats list"

text \<open>\<^verbatim>\<open>dataclasses.asdict\<close> on a \<^verbatim>\<open>PullRequestStats\<close>, the nested dataclass included.\<close>

definition asdict_pr :: "pull_request \<Rightarrow> json" where
  "asdict_pr m =
     JDict [(''created_at'', created_at m), (''updated_at'', updated_at m),
            (''closed_at'', closed_at m), (''merged_at'', merged_at m),
            (''author'', author m), (''number'', number m), (''title'', title m)]"

definition asdict :: "pull_request_stats \<Rightarrow> json" where
  "asdict s =
     JDict [(''pr_meta'', asdict_pr (pr_meta s)),
            (''request_to_review_timestamp'', request_to_review_timestamp s),
            (''pr_approved_timestamp'', pr_approved_timestamp s),
            (''review_given_timestamp'', review_given_timestamp s),
            (''reviews'', JList (reviews s)),
            (''timeline'', JList (timeline s))]"

text \<open>\<^verbatim>\<open>get_timeline_stat\<close>.\<close>

definition get_timeline_stat :: "json \<Rightarrow> error + json" where
  "get_timeline_stat timeline_event =
     (case py_get timeline_event ''actor'' (JDict []) of Inl e \<Rightarrow> Inl e | Inr a \<Rightarrow>
      case py_get a ''login'' JNull of Inl e \<Rightarrow> Inl e | Inr actor \<Rightarrow>
      case py_get timeline_event ''author'' (JDict []) of Inl e \<Rightarrow> Inl e | Inr b \<Rightarrow>
      case py_get b ''name'' JNull of Inl e \<Rightarrow> Inl e | Inr author_name \<Rightarrow>
      case py_get timeline_event ''event'' JNull of Inl e \<Rightarrow> Inl e | Inr ev \<Rightarrow>
      case py_get b ''date'' JNull of Inl e \<Rightarrow> Inl e | Inr date \<Rightarrow>
      case py_get timeline_event ''created_at'' date of Inl e \<Rightarrow> Inl e | Inr created \<Rightarrow>
        Inr (JDict [(''event'', ev),
                    (''author'', if truthy actor then actor else author_name),
                    (''created_at'', created)]))"

text \<open>\<^verbatim>\<open>get_review_stat\<close>.\<close>

definition get_review_stat :: "json \<Rightarrow> error + json" where
  "get_review_stat review_event =
     (case py_get review_event ''state'' JNull of Inl e \<Rightarrow> Inl e | Inr st \<Rightarrow>
      case py_get review_event ''submitted_at'' JNull of Inl e \<Rightarrow> Inl e | Inr sub \<Rightarrow>
      case py_get review_event ''user'' (JDict []) of Inl e \<Rightarrow> Inl e | Inr u \<Rightarrow>
      case py_get u ''login'' JNull of Inl e \<Rightarrow> Inl e | Inr login \<Rightarrow>
        Inr (JDict [(''state'', st), (''created_at'', sub), (''author'', login)]))"

text \<open>
  \<^verbatim>\<open>x[:n]\<close>: a string or a list gives its first \<open>n\<close> items, anything else raises (a
  dictionary too; which exception it raises depends on the Python version).
\<close>

fun py_slice_to :: "nat \<Rightarrow> json \<Rightarrow> error + json" where
  "py_slice_to n (JStr s) = Inr (JStr (take n s))"
| "py_slice_to n (JList xs) = Inr (JList (take n xs))"
| "py_slice_to n _ = Inl TypeError"

text \<open>
  The dataclass \<^verbatim>\<open>PullRequest(...)\<close> built at the end of \<^verbatim>\<open>generate_pr_stats\<close>, its
  arguments evaluated in the order written.
\<close>

definition make_pr_meta :: "json \<Rightarrow> error + pull_request" where
  "make_pr_meta pr =
     (case py_getitem pr ''created_at'' of Inl e \<Rightarrow> Inl e | Inr c \<Rightarrow>
      case py_getitem pr ''updated_at'' of Inl e \<Rightarrow> Inl e | Inr u \<Rightarrow>
      case py_getitem pr ''closed_at'' of Inl e \<Rightarrow> Inl e | Inr cl \<Rightarrow>
      case py_getitem pr ''merged_at'' of Inl e \<Rightarrow> Inl e | Inr m \<Rightarrow>
      case py_getitem pr ''user'' of Inl e \<Rightarrow> Inl e | Inr usr \<Rightarrow>
      case py_getitem usr ''login'' of Inl e \<Rightarrow> Inl e | Inr login \<Rightarrow>
      case py_getitem pr ''number'' of Inl e \<Rightarrow> Inl e | Inr n \<Rightarrow>
      case py_getitem pr ''title'' of Inl e \<Rightarrow> Inl e | Inr t \<Rightarrow>
        Inr \<lparr>created_at = c, updated_at = u, closed_at = cl, merged_at = m,
             author = login, number = n, title = t\<rparr>)"

text \<open>
  The part of \<^verbatim>\<open>generate_pr_stats\<close> after the two fetches: the projections, the three
  derived timestamps (from the raw reviews and the raw timeline) and the record.
\<close>

definition assemble_stats :: "json \<Rightarrow> json list \<Rightarrow> json list \<Rightarrow> json \<Rightarrow> error + pull_request_stats" where
  "assemble_stats pr raw_reviews review_stats raw_timeline =
     (case py_iter raw_timeline of Inl e \<Rightarrow> Inl e | Inr events \<Rightarrow>
      case map_e get_timeline_stat events of Inl e \<Rightarrow> Inl e | Inr timeline_stats \<Rightarrow>
      case get_request_to_review_timestamp pr raw_timeline of Inl e \<Rightarrow> Inl e | Inr rtr \<Rightarrow>
      case get_approval_timestamp raw_reviews of Inl e \<Rightarrow> Inl e | Inr appr \<Rightarrow>
      case get_review_given_timestamp raw_reviews of Inl e \<Rightarrow> Inl e | Inr given \<Rightarrow>
      case make_pr_meta pr of Inl e \<Rightarrow> Inl e | Inr meta \<Rightarrow>
        Inr \<lparr>pr_meta = meta,
             request_to_review_timestamp = rtr,
             pr_approved_timestamp = appr,
             review_given_timestamp = given,
             reviews = review_stats,
             timeline = timeline_stats\<rparr>)"

text \<open>\<^verbatim>\<open>generate_pr_stats\<close>.\<close>

definition generate_pr_stats ::
  "env \<Rightarrow> github_client \<Rightarrow> json \<Rightarrow> string \<Rightarrow> string \<Rightarrow> world
    \<Rightarrow> ((error + pull_request_stats) \<times> world) option" where
  "generate_pr_stats e client pr owner repo w =
     (case py_getitem pr ''number'' of Inl err \<Rightarrow> Some (Inl err, w) | Inr pr_number \<Rightarrow>
      case py_getitem pr ''title'' of Inl err \<Rightarrow> Some (Inl err, w) | Inr t \<Rightarrow>
      case py_slice_to 50 t of Inl err \<Rightarrow> Some (Inl err, w) | Inr _ \<Rightarrow>
      case get_pr_reviews e client owner repo pr_number w of
        None \<Rightarrow> None
      | Some (Inl err, w1) \<Rightarrow> Some (Inl err, w1)
      | Some (Inr raw_reviews, w1) \<Rightarrow>
          (case map_e get_review_stat raw_reviews of
             Inl err \<Rightarrow> Some (Inl err, w1)
           | Inr review_stats \<Rightarrow>
               (case get_pr_timeline e client owner repo pr_number w1 of
                  (Inl err, w2) \<Rightarrow> Some (Inl err, w2)
                | (Inr raw_timeline, w2) \<Rightarrow>
                    Some (assemble_stats pr raw_reviews review_stats raw_timeline, w2))))"

text \<open>
  The output file. A file's content is the JSON document \<^verbatim>\<open>json.dump\<close> wrote and
  \<^verbatim>\<open>json.load\<close> reads back; the files are kept by path, and every path can be written.
  \<^verbatim>\<open>output_file\<close> is \<open>None\<close> when the caller passes none, and \<^verbatim>\<open>open\<close> then raises.
\<close>

type_synonym files = "(string \<times> json) list"

text \<open>\<^verbatim>\<open>_init_json_output\<close>.\<close>

definition init_json_output ::
  "env \<Rightarrow> string option \<Rightarrow> json \<Rightarrow> world \<Rightarrow> files \<Rightarrow> error + files" where
  "init_json_output e output_file repo_info w fs =
     (let initial_data =
            JDict [(''repository'', repo_info),
                   (''generated_at'', JStr (utc_now e (trace w))),
                   (''pull_requests'', JList [])]
      in case output_file of
           None \<Rightarrow> Inl TypeError
         | Some path \<Rightarrow> Inr (dict_set path initial_data fs))"

text \<open>\<^verbatim>\<open>_append_pr_to_json\<close>: read the whole document, append, write the whole document.\<close>

definition append_pr_to_json :: "string option \<Rightarrow> pull_request_stats \<Rightarrow> files \<Rightarrow> error + files" where
  "append_pr_to_json output_file pr_stats fs =
     (case output_file of
        None \<Rightarrow> Inl TypeError
      | Some path \<Rightarrow>
          (case map_of fs path of
             None \<Rightarrow> Inl FileNotFoundError
           | Some data \<Rightarrow>
               (case py_getitem data ''pull_requests'' of
                  Inl err \<Rightarrow> Inl err
                | Inr (JList entries) \<Rightarrow>
                    (case data of
                       JDict d \<Rightarrow>
                         Inr (dict_set path
                                (JDict (dict_set ''pull_requests''
                                          (JList (entries @ [asdict pr_stats])) d))
                                fs)
                     | _ \<Rightarrow> Inl TypeError)
                | Inr _ \<Rightarrow> Inl AttributeError)))"

text \<open>
  The output file at the successive moments of a write,
  \<^verbatim>\<open>with open(output_file, 'w') as f: json.dump(data, f, indent=2)\<close>. \<^verbatim>\<open>open\<close> truncates the
  file and \<^verbatim>\<open>json.dump\<close> then writes the text piece by piece: until the last piece is
  written the file is torn, it holds no JSON document.
\<close>

datatype file_view = Holds json | Torn

definition write_views :: "json \<Rightarrow> file_view list" where
  "write_views data = [Torn, Holds data]"

text \<open>
  The output file at the successive moments of \<^verbatim>\<open>_append_pr_to_json\<close>: the document that
  is read, then the moments of the write.
\<close>

definition append_views :: "string option \<Rightarrow> pull_request_stats \<Rightarrow> files \<Rightarrow> file_view list" where
  "append_views output_file pr_stats fs =
     (case output_file of
        None \<Rightarrow> []
      | Some path \<Rightarrow>
          (case map_of fs path of
             None \<Rightarrow> []
           | Some data \<Rightarrow>
               Holds data #
               (case append_pr_to_json output_file pr_stats fs of
                  Inl err \<Rightarrow> []
                | Inr fs1 \<Rightarrow>
                    (case map_of fs1 path of
                       None \<Rightarrow> []
                     | Some data1 \<Rightarrow> write_views data1))))"

text \<open>
  The body of the \<^verbatim>\<open>try\<close> block in the loop of \<^verbatim>\<open>generate_stats\<close>: the statistics of
  one pull request, then the append to the file.
\<close>

definition process_pr ::
  "env \<Rightarrow> github_client \<Rightarrow> string option \<Rightarrow> string \<Rightarrow> string \<Rightarrow> json \<Rightarrow> world \<Rightarrow> files
    \<Rightarrow> ((error + pull_request_stats) \<times> world \<times> files) option" where
  "process_pr e client output_file owner repo pr w fs =
     (case generate_pr_stats e client pr owner repo w of
        None \<Rightarrow> None
      | Some (Inl err, w1) \<Rightarrow> Some (Inl err, w1, fs)
      | Some (Inr stats, w1) \<Rightarrow>
          (case append_pr_to_json output_file stats fs of
             Inl err \<Rightarrow> Some (Inl err, w1, fs)
           | Inr fs1 \<Rightarrow> Some (Inr stats, w1, fs1)))"

text \<open>
  The loop of \<^verbatim>\<open>generate_stats\<close>. An exception of the \<^verbatim>\<open>try\<close> block is caught and logged
  with \<^verbatim>\<open>pr['number']\<close>; when that lookup raises in the handler, the exception leaves the
  loop and the run.
\<close>

fun process_prs ::
  "env \<Rightarrow> github_client \<Rightarrow> string option \<Rightarrow> string \<Rightarrow> string \<Rightarrow> json list
    \<Rightarrow> pull_request_stats list \<Rightarrow> world \<Rightarrow> files
    \<Rightarrow> ((error + pull_request_stats list) \<times> world \<times> files) option" where
  "process_prs e client output_file owner repo [] pr_stats w fs = Some (Inr pr_stats, w, fs)"
| "process_prs e client output_file owner repo (pr # rest) pr_stats w fs =
     (case process_pr e client output_file owner repo pr w fs of
        None \<Rightarrow> None
      | Some (Inr stats, w1, fs1) \<Rightarrow>
          process_prs e client output_file owner repo rest (pr_stats @ [stats]) w1 fs1
      | Some (Inl err, w1, fs1) \<Rightarrow>
          (case py_getitem pr ''number'' of
             Inl err' \<Rightarrow> Some (Inl err', w1, fs1)
           | Inr n \<Rightarrow>
               process_prs e client output_file owner repo rest pr_stats
                 (log_msg w1 (ErrorProcessingPR n err)) fs1))"

text \<open>\<^verbatim>\<open>str.split(sep)\<close> with a one-character separator.\<close>

fun split_on :: "char \<Rightarrow> string \<Rightarrow> string list" where
  "split_on c [] = [[]]"
| "split_on c (x # xs) =
     (if x = c then [] # split_on c xs
      else (case split_on c xs of [] \<Rightarrow> [[x]] | p # ps \<Rightarrow> (x # p) # ps))"

text \<open>\<^verbatim>\<open>owner, repo = repo_spec.split('/')\<close>.\<close>

definition split_repo_spec :: "string \<Rightarrow> error + string \<times> string" where
  "split_repo_spec repo_spec =
     (case split_on (CHR ''/'') repo_spec of
        [owner, repo] \<Rightarrow> Inr (owner, repo)
      | _ \<Rightarrow> Inl ValueError)"

text \<open>
  \<^verbatim>\<open>generate_stats\<close> up to its loop: the repository named, the pull requests
  fetched and the output file initialised (with the empty dictionary as \<^verbatim>\<open>repo_info\<close>).
\<close>

definition start_run ::
  "env \<Rightarrow> github_client \<Rightarrow> string \<Rightarrow> string option \<Rightarrow> world \<Rightarrow> files
    \<Rightarrow> ((error + string \<times> string \<times> json list) \<times> world \<times> files) option" where
  "start_run e client repo_spec output_file w fs =
     (case split_repo_spec repo_spec of
        Inl err \<Rightarrow> Some (Inl err, w, fs)
      | Inr (owner, repo) \<Rightarrow>
          (case get_pull_requests e client owner repo ''all'' w of
             None \<Rightarrow> None
           | Some (Inl err, w1) \<Rightarrow> Some (Inl err, w1, fs)
           | Some (Inr prs, w1) \<Rightarrow>
               (case init_json_output e output_file (JDict []) w1 fs of
                  Inl err \<Rightarrow> Some (Inl err, w1, fs)
                | Inr fs1 \<Rightarrow> Some (Inr (owner, repo, prs), w1, fs1))))"

text \<open>\<^verbatim>\<open>generate_stats\<close>.\<close>

definition generate_stats ::
  "env \<Rightarrow> github_client \<Rightarrow> string \<Rightarrow> string option \<Rightarrow> world \<Rightarrow> files
    \<Rightarrow> ((error + repository_stats) \<times> world \<times> files) option" where
  "generate_stats e client repo_spec output_file w fs =
     (case start_run e client repo_spec output_file w fs of
        None \<Rightarrow> None
      | Some (Inl err, w1, fs1) \<Rightarrow> Some (Inl err, w1, fs1)
      | Some (Inr (owner, repo, prs), w1, fs1) \<Rightarrow>
          (case process_prs e client output_file owner repo prs [] w1 fs1 of
             None \<Rightarrow> None
           | Some (Inl err, w2, fs2) \<Rightarrow> Some (Inl err, w2, fs2)
           | Some (Inr pr_stats, w2, fs2) \<Rightarrow>
               Some (Inr \<lparr>repository =
                            [(''name'', repo), (''owner'', owner),
                             (''url'', ''https://github.com/'' @ owner @ ''/'' @ repo)],
                          generated_at = utc_now e (trace w2),
                          pull_requests = pr_stats\<rparr>,
                     w2, fs2)))"

text \<open>
  The run stopped after its first \<open>i\<close> pull requests: what the loop has returned so far,
  the world and the files at that moment.
\<close>

definition run_upto ::
  "nat \<Rightarrow> env \<Rightarrow> github_client \<Rightarrow> string \<Rightarrow> string option \<Rightarrow> world \<Rightarrow> files
    \<Rightarrow> ((error + pull_request_stats list) \<times> world \<times> files) option" where
  "run_upto i e client repo_spec output_file w fs =
     (case start_run e client repo_spec output_file w fs of
        None \<Rightarrow> None
      | Some (Inl err, w1, fs1) \<Rightarrow> Some (Inl err, w1, fs1)
      | Some (Inr (owner, repo, prs), w1, fs1) \<Rightarrow>
          process_prs e client output_file owner repo (take i prs) [] w1 fs1)"

section \<open>Notions used to state the properties\<close>

text \<open>An object, a list, a string.\<close>

fun is_dict :: "json \<Rightarrow> bool" where
  "is_dict (JDict d) = True"
| "is_dict _ = False"

fun is_list :: "json \<Rightarrow> bool" where
  "is_list (JList xs) = True"
| "is_list _ = False"

fun is_str :: "json \<Rightarrow> bool" where
  "is_str (JStr s) = True"
| "is_str _ = False"

text \<open>The value of a field of an object, \<open>JNull\<close> when the field is absent.\<close>

fun field :: "json \<Rightarrow> string \<Rightarrow> json" where
  "field (JDict d) k = (case map_of d k of Some v \<Rightarrow> v | None \<Rightarrow> JNull)"
| "field _ k = JNull"



text \<open>The submission timestamp of a review, as a string.\<close>

definition sub_str :: "json \<Rightarrow> string" where
  "sub_str r = (case field r ''submitted_at'' of JStr t \<Rightarrow> t | _ \<Rightarrow> [])"

text \<open>A review in the approved state.\<close>

definition approved_review :: "json \<Rightarrow> bool" where
  "approved_review r = (field r ''state'' = JStr ''APPROVED'')"

text \<open>
  A substantive review, in the words of the specification: its state is changes-requested
  or commented, or it is approved and carries a non-empty body. The states are those of a
  review as the service reports them: \<^verbatim>\<open>CHANGES_REQUESTED\<close>, \<^verbatim>\<open>COMMENTED\<close> and \<^verbatim>\<open>APPROVED\<close>.
\<close>

definition substantive_review :: "json \<Rightarrow> bool" where
  "substantive_review r =
     (field r ''state'' = JStr ''CHANGES_REQUESTED'' \<or>
      field r ''state'' = JStr ''COMMENTED'' \<or>
      (field r ''state'' = JStr ''APPROVED'' \<and> truthy (field r ''body'')))"

text \<open>A review whose state is changes-requested or commented.\<close>

definition verdict_review :: "json \<Rightarrow> bool" where
  "verdict_review r =
     (field r ''state'' = JStr ''CHANGES_REQUESTED'' \<or> field r ''state'' = JStr ''COMMENTED'')"

text \<open>A query parameter of a request.\<close>

definition param :: "request \<Rightarrow> string \<Rightarrow> json option" where
  "param r k = (case req_params r of None \<Rightarrow> None | Some ps \<Rightarrow> map_of ps k)"

text \<open>
  A page source for a URL: the service answers every request for page \<open>q\<close> of the URL with
  status 200 and the body \<open>src q\<close>.
\<close>

definition serves_pages :: "env \<Rightarrow> url \<Rightarrow> (int \<Rightarrow> json) \<Rightarrow> bool" where
  "serves_pages e u src =
     (\<forall>tr r q. req_url r = u \<and> param r ''page'' = Some (JInt q) \<longrightarrow>
        status_code (server e tr r) = 200 \<and> body (server e tr r) = Some (src q))"

text \<open>The items of a page, and a page that makes the loop go on: a list of 100 items or more.\<close>

fun page_items :: "json \<Rightarrow> json list" where
  "page_items (JList xs) = xs"
| "page_items _ = []"

fun full_page :: "json \<Rightarrow> bool" where
  "full_page (JList xs) = (100 \<le> length xs)"
| "full_page _ = False"

text \<open>
  The requests of \<open>n\<close> successive iterations of the loop of \<^verbatim>\<open>_paginate\<close> from page \<open>p\<close>.
\<close>

fun page_requests ::
  "github_client \<Rightarrow> url \<Rightarrow> (string \<times> json) list \<Rightarrow> int \<Rightarrow> nat \<Rightarrow> request list" where
  "page_requests client u params p 0 = []"
| "page_requests client u params p (Suc n) =
     api_request client u (Some (page_params p params))
       # page_requests client u (page_params p params) (p + 1) n"

text \<open>
  A service that answers every request with status 200 and the page of a source that the
  request's \<^verbatim>\<open>page\<close> parameter names; three pages of 100, 100 and 37 items.
\<close>

definition page_source_env :: "(int \<Rightarrow> json) \<Rightarrow> env" where
  "page_source_env src =
     \<lparr>server = (\<lambda>tr r.
        \<lparr>status_code = 200,
         body = Some (src (case param r ''page'' of Some (JInt q) \<Rightarrow> q | _ \<Rightarrow> 1)),
         rate_limit_reset = NoHeader\<rparr>),
      clock = (\<lambda>tr. 0),
      utc_now = (\<lambda>tr. ''2024-01-01T00:00:00+00:00'')\<rparr>"

definition three_pages :: "int \<Rightarrow> json" where
  "three_pages q =
     JList (replicate (if q = 1 \<or> q = 2 then 100 else if q = 3 then 37 else 0) (JInt q))"

definition world0 :: world where
  "world0 = \<lparr>trace = [], logged = []\<rparr>"



definition two_approvals :: "json list" where
  "two_approvals =
     [JDict [(''state'', JStr ''APPROVED''), (''submitted_at'', JStr ''2024-01-05T00:00:00Z'')],
      JDict [(''state'', JStr ''COMMENTED''), (''submitted_at'', JStr ''2024-01-01T12:00:00Z'')],
      JDict [(''state'', JStr ''APPROVED''), (''submitted_at'', JStr ''2024-01-03T00:00:00Z''),
             (''body'', JStr ''fine'')]]"

definition example_pr :: json where
  "example_pr = JDict [(''created_at'', JStr ''2024-01-01T00:00:00Z''), (''draft'', JBool False)]"

definition example_reviews :: "json list" where
  "example_reviews =
     [JDict [(''state'', JStr ''APPROVED''), (''submitted_at'', JStr ''2024-01-02T00:00:00Z'')],
      JDict [(''state'', JStr ''COMMENTED''), (''submitted_at'', JStr ''2024-01-01T12:00:00Z'')]]"

definition changes_requested_review :: json where
  "changes_requested_review =
     JDict [(''state'', JStr ''CHANGES_REQUESTED''),
            (''submitted_at'', JStr ''2024-01-01T06:00:00Z''),
            (''body'', JStr ''Please rename.'')]"

text \<open>
  A service that answers every request with status 403 and a reset time 300 seconds ahead
  of the clock, and one that does so for the first request only and answers 200 afterwards.
\<close>

definition rate_limited_env :: env where
  "rate_limited_env =
     \<lparr>server = (\<lambda>tr r.
        \<lparr>status_code = 403, body = None, rate_limit_reset = IntHeader 1700000300\<rparr>),
      clock = (\<lambda>tr. 1700000000),
      utc_now = (\<lambda>tr. ''2024-01-01T00:00:00+00:00'')\<rparr>"

definition limited_once_env :: env where
  "limited_once_env =
     \<lparr>server = (\<lambda>tr r.
        if tr = []
        then \<lparr>status_code = 403, body = None, rate_limit_reset = IntHeader 1700000300\<rparr>
        else \<lparr>status_code = 200, body = Some (JList [JInt 1]), rate_limit_reset = NoHeader\<rparr>),
      clock = (\<lambda>tr. 1700000000),
      utc_now = (\<lambda>tr. ''2024-01-01T00:00:00+00:00'')\<rparr>"

text \<open>
  The document \<^verbatim>\<open>_init_json_output\<close> writes and the appends extend, for a run that
  started at \<open>g\<close> and has recorded the statistics \<open>done\<close>.
\<close>

definition output_doc :: "string \<Rightarrow> pull_request_stats list \<Rightarrow> json" where
  "output_doc g done =
     JDict [(''repository'', JDict []),
            (''generated_at'', JStr g),
            (''pull_requests'', JList (map asdict done))]"

text \<open>The statistics of a pull request, as an example.\<close>

definition example_stats :: pull_request_stats where
  "example_stats =
     \<lparr>pr_meta =
        \<lparr>created_at = JStr ''2024-01-01T00:00:00Z'', updated_at = JStr ''2024-01-02T00:00:00Z'',
         closed_at = JNull, merged_at = JNull, author = JStr ''alice'', number = JInt 1,
         title = JStr ''First''\<rparr>,
      request_to_review_timestamp = JStr ''2024-01-01T00:00:00Z'',
      pr_approved_timestamp = JNull,
      review_given_timestamp = JNull,
      reviews = [],
      timeline = []\<rparr>"

text \<open>The logged errors that report a skipped pull request.\<close>

fun is_pr_error :: "log_entry \<Rightarrow> bool" where
  "is_pr_error (ErrorProcessingPR n err) = True"
| "is_pr_error _ = False"

definition pr_errors :: "world \<Rightarrow> log_entry list" where
  "pr_errors w = filter is_pr_error (logged w)"

text \<open>
  A repository with three pull requests, numbered 1, 2 and 3, served by a service that
  answers the request for the reviews of number 2 with status 500, every other request for
  reviews with the reviews of the end-to-end example, and every request for a timeline
  with the empty list; and the statistics of pull request \<open>k\<close> there.
\<close>

definition pr_json :: "int \<Rightarrow> json" where
  "pr_json k =
     JDict [(''number'', JInt k), (''title'', JStr ''A change''),
            (''created_at'', JStr ''2024-01-01T00:00:00Z''),
            (''updated_at'', JStr ''2024-01-03T00:00:00Z''),
            (''closed_at'', JNull), (''merged_at'', JNull),
            (''user'', JDict [(''login'', JStr ''alice'')]),
            (''draft'', JBool False)]"

definition three_pr_env :: env where
  "three_pr_env =
     \<lparr>server = (\<lambda>tr r.
        case req_url r of
          PullsUrl owner repo \<Rightarrow>
            \<lparr>status_code = 200, body = Some (JList [pr_json 1, pr_json 2, pr_json 3]),
             rate_limit_reset = NoHeader\<rparr>
        | ReviewsUrl owner repo n \<Rightarrow>
            if n = JInt 2
            then \<lparr>status_code = 500, body = None, rate_limit_reset = NoHeader\<rparr>
            else \<lparr>status_code = 200, body = Some (JList example_reviews),
                  rate_limit_reset = NoHeader\<rparr>
        | TimelineUrl owner repo n \<Rightarrow>
            \<lparr>status_code = 200, body = Some (JList []), rate_limit_reset = NoHeader\<rparr>
        | _ \<Rightarrow> \<lparr>status_code = 404, body = None, rate_limit_reset = NoHeader\<rparr>),
      clock = (\<lambda>tr. 1700000000),
      utc_now = (\<lambda>tr. ''2024-01-01T00:00:00+00:00'')\<rparr>"

definition pr_stats_of :: "int \<Rightarrow> pull_request_stats" where
  "pr_stats_of k =
     \<lparr>pr_meta =
        \<lparr>created_at = JStr ''2024-01-01T00:00:00Z'', updated_at = JStr ''2024-01-03T00:00:00Z'',
         closed_at = JNull, merged_at = JNull, author = JStr ''alice'', number = JInt k,
         title = JStr ''A change''\<rparr>,
      request_to_review_timestamp = JStr ''2024-01-01T00:00:00Z'',
      pr_approved_timestamp = JStr ''2024-01-02T00:00:00Z'',
      review_given_timestamp = JNull,
      reviews =
        [JDict [(''state'', JStr ''APPROVED''), (''created_at'', JStr ''2024-01-02T00:00:00Z''),
                (''author'', JNull)],
         JDict [(''state'', JStr ''COMMENTED''), (''created_at'', JStr ''2024-01-01T12:00:00Z''),
                (''author'', JNull)]],
      timeline = []\<rparr>"

text \<open>
  The requests of a run over that repository, named \<^verbatim>\<open>octo/demo\<close>: the first page of
  pull requests, then the reviews and the timeline of each pull request; no timeline is
  asked for number 2, whose reviews fail.
\<close>

definition reviews_request :: "github_client \<Rightarrow> int \<Rightarrow> request" where
  "reviews_request client k =
     api_request client (ReviewsUrl ''octo'' ''demo'' (JInt k)) (Some (page_params 1 []))"

definition three_pr_trace :: "github_client \<Rightarrow> io_event list" where
  "three_pr_trace client =
     [Get (api_request client (PullsUrl ''octo'' ''demo'')
             (Some (page_params 1 [(''state'', JStr ''all'')]))),
      Get (reviews_request client 1),
      Get (timeline_request client ''octo'' ''demo'' (JInt 1)),
      Get (reviews_request client 2),
      Get (reviews_request client 3),
      Get (timeline_request client ''octo'' ''demo'' (JInt 3))]"

text \<open>
  The number of entries of the \<^verbatim>\<open>pull_requests\<close> array in the file at a path, after a run
  (or a part of one) that has returned.
\<close>

definition persisted_entries :: "files \<Rightarrow> string \<Rightarrow> json list" where
  "persisted_entries fs path =
     (case map_of fs path of
        None \<Rightarrow> []
      | Some doc \<Rightarrow> page_items (field doc ''pull_requests''))"

definition entries_after ::
  "((error + 'a) \<times> world \<times> files) option \<Rightarrow> string \<Rightarrow> nat option" where
  "entries_after r path =
     (case r of
        None \<Rightarrow> None
      | Some (res, w, fs) \<Rightarrow> Some (length (persisted_entries fs path)))"

text \<open>
  The outcomes of the \<^verbatim>\<open>try\<close> block for the pull requests of a run, one for each pull
  request the loop gets through, in order: the statistics, or the exception raised.
\<close>

fun try_results ::
  "env \<Rightarrow> github_client \<Rightarrow> string option \<Rightarrow> string \<Rightarrow> string \<Rightarrow> json list \<Rightarrow> world \<Rightarrow> files
    \<Rightarrow> (error + pull_request_stats) list" where
  "try_results e client output_file owner repo [] w fs = []"
| "try_results e client output_file owner repo (pr # rest) w fs =
     (case process_pr e client output_file owner repo pr w fs of
        None \<Rightarrow> []
      | Some (Inr stats, w1, fs1) \<Rightarrow>
          Inr stats # try_results e client output_file owner repo rest w1 fs1
      | Some (Inl err, w1, fs1) \<Rightarrow>
          Inl err #
          (case py_getitem pr ''number'' of
             Inl err' \<Rightarrow> []
           | Inr n \<Rightarrow>
               try_results e client output_file owner repo rest
                 (log_msg w1 (ErrorProcessingPR n err)) fs1))"

text \<open>The statistics among such outcomes, in order.\<close>

fun successes :: "(error + 'a) list \<Rightarrow> 'a list" where
  "successes [] = []"
| "successes (Inl err # rs) = successes rs"
| "successes (Inr s # rs) = s # successes rs"

section \<open>The derived timestamps: auxiliary facts\<close>

lemma py_eq_JStr [simp]: "py_eq x (JStr s) = (x = JStr s)"
  by (cases x) auto

lemma py_get_dict: "is_dict x \<Longrightarrow> py_get x k JNull = Inr (field x k)"
  by (cases x) auto


lemma Min_image_Cons:
  "Min (g ` set (y # z # zs)) = min (g y) (Min (g ` set (z # zs)))"
proof -
  have "Min (insert (g y) (g ` set (z # zs))) = min (g y) (Min (g ` set (z # zs)))"
    by (rule Min_insert) simp_all
  then show ?thesis by (simp only: list.set image_insert)
qed

lemma min_loop_strings:
  "\<forall>x\<in>set (item # xs). f x = Inr (JStr (g x)) \<Longrightarrow>
   \<exists>m\<in>set (item # xs). min_loop f xs item (JStr (g item)) = Inr m \<and>
      g m = Min (g ` set (item # xs))"
proof (induction xs arbitrary: item)
  case Nil
  then show ?case by simp
next
  case (Cons x xs)
  from Cons.prems have fx: "f x = Inr (JStr (g x))" by simp
  show ?case
  proof (cases "g x < g item")
    case True
    from Cons.prems have "\<forall>y\<in>set (x # xs). f y = Inr (JStr (g y))" by simp
    from Cons.IH [OF this] obtain m where m: "m \<in> set (x # xs)"
      "min_loop f xs x (JStr (g x)) = Inr m" "g m = Min (g ` set (x # xs))" by blast
    define M where "M = Min (g ` set (x # xs))"
    have Mx: "M \<le> g x" unfolding M_def by (rule Min_le) simp_all
    have "M \<le> g item" by (rule order.trans [OF Mx less_imp_le [OF True]])
    then have "min (g item) M = M" by (rule min_absorb2)
    then have "Min (g ` set (item # x # xs)) = M"
      unfolding M_def by (simp only: Min_image_Cons)
    then have gm: "g m = Min (g ` set (item # x # xs))" using m(3) M_def by simp
    have "min_loop f (x # xs) item (JStr (g item)) = Inr m"
      using fx True m(2) by simp
    moreover have "m \<in> set (item # x # xs)" using m(1) by simp
    ultimately show ?thesis using gm by blast
  next
    case False
    from Cons.prems have "\<forall>y\<in>set (item # xs). f y = Inr (JStr (g y))" by simp
    from Cons.IH [OF this] obtain m where m: "m \<in> set (item # xs)"
      "min_loop f xs item (JStr (g item)) = Inr m" "g m = Min (g ` set (item # xs))" by blast
    define M where "M = Min (g ` set (item # xs))"
    have Mi: "M \<le> g item" unfolding M_def by (rule Min_le) simp_all
    from False have "g item \<le> g x" by (simp only: not_less)
    with Mi have "M \<le> g x" by (rule order.trans)
    then have "min (g x) M = M" by (rule min_absorb2)
    moreover have "g ` set (item # x # xs) = g ` set (x # item # xs)" by auto
    ultimately have "Min (g ` set (item # x # xs)) = M"
      unfolding M_def by (simp only: Min_image_Cons)
    then have gm: "g m = Min (g ` set (item # x # xs))" using m(3) M_def by simp
    have "min_loop f (x # xs) item (JStr (g item)) = Inr m"
      using fx False m(2) by simp
    moreover have "m \<in> set (item # x # xs)" using m(1) by auto
    ultimately show ?thesis using gm by blast
  qed
qed

lemma py_min_key_strings:
  assumes "xs \<noteq> []" and "\<forall>x\<in>set xs. f x = Inr (JStr (g x))"
  shows "\<exists>m\<in>set xs. py_min_key f xs = Inr m \<and> g m = Min (g ` set xs)"
proof -
  from assms(1) obtain y ys where xs: "xs = y # ys" by (cases xs) auto
  from min_loop_strings [of y ys f g] assms(2) xs show ?thesis
    by (auto simp: py_min_key_def)
qed

lemma filter_e_total:
  "\<forall>x\<in>set xs. p x = Inr (q x) \<Longrightarrow> filter_e p xs = Inr (filter q xs)"
  by (induction xs) auto

lemma submitted_at_key_str:
  "is_dict r \<Longrightarrow> is_str (field r ''submitted_at'') \<Longrightarrow>
   submitted_at_key r = Inr (JStr (sub_str r))"
  apply (cases r; simp add: submitted_at_key_def sub_str_def split: option.splits)
  apply (auto split: json.splits)
  done

lemma min_timestamp:
  assumes "rs \<noteq> []" and "\<forall>r\<in>set rs. is_dict r \<and> is_str (field r ''submitted_at'')"
  shows "(case py_min_key submitted_at_key rs of
            Inl e \<Rightarrow> Inl e
          | Inr m \<Rightarrow> py_getitem m ''submitted_at'') = Inr (JStr (Min (set (map sub_str rs))))"
proof -
  have "\<forall>r\<in>set rs. submitted_at_key r = Inr (JStr (sub_str r))"
    using assms(2) by (simp add: submitted_at_key_str)
  from py_min_key_strings [OF assms(1) this] obtain m where m: "m \<in> set rs"
    "py_min_key submitted_at_key rs = Inr m" "sub_str m = Min (sub_str ` set rs)" by blast
  from m(1) assms(2) have "submitted_at_key m = Inr (JStr (sub_str m))"
    by (simp add: submitted_at_key_str)
  with m show ?thesis by (simp add: submitted_at_key_def)
qed

lemma is_approved_dict: "is_dict r \<Longrightarrow> is_approved r = Inr (approved_review r)"
  by (simp add: is_approved_def approved_review_def py_get_dict)

lemma is_substantive_verdict:
  "is_dict r \<Longrightarrow> verdict_review r \<Longrightarrow> is_substantive r = Inr False"
  by (cases r) (auto simp: is_substantive_def verdict_review_def py_in_def)

section \<open>The client: auxiliary facts\<close>

lemma make_request_200:
  "status_code (server e (trace w) (api_request client u params)) = 200 \<Longrightarrow>
   make_request e client u params w =
     Some (response_json (server e (trace w) (api_request client u params)),
           sent w (api_request client u params))"
  by (subst make_request.simps) (simp add: Let_def)

lemma paginate_loop_full:
  "make_request e client u (Some (page_params page params)) w = Some (Inr (JList items), w1) \<Longrightarrow>
   100 \<le> length items \<Longrightarrow>
   paginate_loop e client u params page results w =
     paginate_loop e client u (page_params page params) (page + 1) (results @ items) w1"
  by (subst paginate_loop.simps) auto

lemma paginate_loop_short:
  "make_request e client u (Some (page_params page params)) w = Some (Inr (JList items), w1) \<Longrightarrow>
   length items < 100 \<Longrightarrow>
   paginate_loop e client u params page results w = Some (Inr (results @ items), w1)"
  by (subst paginate_loop.simps) auto

lemma paginate_loop_not_list:
  "make_request e client u (Some (page_params page params)) w = Some (Inr data, w1) \<Longrightarrow>
   \<not> is_list data \<Longrightarrow>
   paginate_loop e client u params page results w = Some (Inr results, w1)"
  by (subst paginate_loop.simps) (auto split: json.splits)

lemma map_of_dict_set: "map_of (dict_set k v d) = (map_of d)(k \<mapsto> v)"
  by (induction d) auto

lemma param_page_params:
  "param (api_request client u (Some (page_params p params))) ''page'' = Some (JInt p)"
  "param (api_request client u (Some (page_params p params))) ''per_page'' = Some (JInt 100)"
  by (simp_all add: param_def api_request_def page_params_def map_of_dict_set)

lemma fetch_page:
  assumes "serves_pages e u src"
  shows "make_request e client u (Some (page_params p params)) w =
     Some (Inr (src p), sent w (api_request client u (Some (page_params p params))))"
proof -
  let ?r = "api_request client u (Some (page_params p params))"
  have "req_url ?r = u" by (simp add: api_request_def)
  with assms param_page_params(1) [of client u p params]
  have "status_code (server e (trace w) ?r) = 200 \<and> body (server e (trace w) ?r) = Some (src p)"
    unfolding serves_pages_def by blast
  then show ?thesis
    by (simp add: make_request_200 response_json_def)
qed

lemma paginate_loop_last:
  assumes "serves_pages e u src" and "\<not> full_page (src p)"
  shows "paginate_loop e client u params p results w =
     Some (Inr (results @ page_items (src p)),
           sent w (api_request client u (Some (page_params p params))))"
proof -
  have f: "make_request e client u (Some (page_params p params)) w =
      Some (Inr (src p), sent w (api_request client u (Some (page_params p params))))"
    by (rule fetch_page [OF assms(1)])
  show ?thesis
  proof (cases "is_list (src p)")
    case True
    then obtain items where items: "src p = JList items" by (cases "src p") auto
    with assms(2) have short: "length items < 100" by simp
    from paginate_loop_short [OF f [unfolded items] short] items show ?thesis by simp
  next
    case False
    then have "page_items (src p) = []" by (cases "src p") auto
    with paginate_loop_not_list [OF f False] show ?thesis by simp
  qed
qed

lemma paginate_loop_pages:
  assumes "serves_pages e u src"
  shows "(\<forall>q. p \<le> q \<and> q < p + int n \<longrightarrow> full_page (src q)) \<Longrightarrow>
     \<not> full_page (src (p + int n)) \<Longrightarrow>
     paginate_loop e client u params p results w =
       Some (Inr (results @ concat (map (\<lambda>q. page_items (src q)) [p..p + int n])),
             w\<lparr>trace := trace w @ map Get (page_requests client u params p (Suc n))\<rparr>)"
proof (induction n arbitrary: p params results w)
  case 0
  then show ?case
    using paginate_loop_last [OF assms, of p client params results w]
    by (simp add: sent_def)
next
  case (Suc n)
  let ?r = "api_request client u (Some (page_params p params))"
  from Suc.prems(1) have "full_page (src p)" by simp
  then obtain items where items: "src p = JList items" "100 \<le> length items"
    by (cases "src p") auto
  have "make_request e client u (Some (page_params p params)) w =
      Some (Inr (JList items), sent w ?r)"
    using fetch_page [OF assms, of client p params w] items(1) by simp
  from paginate_loop_full [OF this items(2)]
  have step: "paginate_loop e client u params p results w =
      paginate_loop e client u (page_params p params) (p + 1) (results @ items) (sent w ?r)" .
  have a: "\<forall>q. p + 1 \<le> q \<and> q < p + 1 + int n \<longrightarrow> full_page (src q)"
    using Suc.prems(1) by simp
  have b: "\<not> full_page (src (p + 1 + int n))"
    using Suc.prems(2) by (simp add: add.commute add.left_commute)
  have up: "[p..p + int (Suc n)] = p # [p + 1..p + 1 + int n]"
    by (subst upto.simps) (simp add: add.commute add.left_commute)
  show ?case
    unfolding step Suc.IH [OF a b] up
    by (simp add: items(1) sent_def)
qed

lemma page_requests_pages:
  "map (\<lambda>r. param r ''page'') (page_requests client u params p n) =
     map (\<lambda>q. Some (JInt q)) [p..p + int n - 1]"
proof (induction n arbitrary: p params)
  case 0
  then show ?case by simp
next
  case (Suc n)
  have up: "[p..p + int (Suc n) - 1] = p # [p + 1..p + 1 + int n - 1]"
    by (subst upto.simps) (simp add: add.commute add.left_commute)
  show ?case unfolding up by (simp add: Suc.IH param_page_params)
qed

lemma page_requests_same:
  "r \<in> set (page_requests client u params p n) \<Longrightarrow>
   req_url r = u \<and> param r ''per_page'' = Some (JInt 100) \<and>
   req_headers r = session_headers client"
proof (induction n arbitrary: p params)
  case 0
  then show ?case by simp
next
  case (Suc n)
  then show ?case
    by (auto simp: param_page_params) (simp_all add: api_request_def)
qed

lemma length_page_requests: "length (page_requests client u params p n) = n"
  by (induction n arbitrary: p params) auto

lemma serves_page_source_env: "serves_pages (page_source_env src) u src"
  by (simp add: serves_pages_def page_source_env_def)

lemma three_pages_full: "full_page (three_pages 1)" "full_page (three_pages 2)"
  "\<not> full_page (three_pages 3)"
  by (simp_all add: three_pages_def)

lemma three_pages_run:
  "paginate (page_source_env three_pages) client u params world0 =
     Some (Inr (replicate 100 (JInt 1) @ replicate 100 (JInt 2) @ replicate 37 (JInt 3)),
           world0\<lparr>trace := map Get (page_requests client u (case params of None \<Rightarrow> [] | Some p \<Rightarrow> p) 1 3)\<rparr>)"
proof -
  have a: "\<forall>q. 1 \<le> q \<and> q < 1 + int 2 \<longrightarrow> full_page (three_pages q)"
    by (auto simp: three_pages_def)
  have b: "\<not> full_page (three_pages (1 + int 2))"
    by (simp add: three_pages_def)
  have up: "[1..1 + int 2] = [1, 2, 3]" by (simp add: upto.simps)
  show ?thesis
    unfolding paginate_def paginate_loop_pages [OF serves_page_source_env a b] up
    by (simp add: three_pages_def world0_def numeral_3_eq_3)
qed

lemma make_request_403:
  "status_code (server e (trace w) (api_request client u params)) = 403 \<Longrightarrow>
   rate_limit_reset (server e (trace w) (api_request client u params)) = IntHeader t \<Longrightarrow>
   make_request e client u params w =
     make_request e client u params
       (slept (log_msg (sent w (api_request client u params))
                 (RateLimitedSleeping
                    (max (t - clock e (trace (sent w (api_request client u params))) + 60) 60)))
          (max (t - clock e (trace (sent w (api_request client u params))) + 60) 60))"
  by (subst make_request.simps) (simp add: Let_def)

lemma dict_set_keys: "map_of d k = Some x \<Longrightarrow> map fst (dict_set k v d) = map fst d"
  by (induction d) (auto split: if_splits)

lemma rate_limited_env_answer:
  "status_code (server rate_limited_env tr r) = 403"
  "rate_limit_reset (server rate_limited_env tr r) = IntHeader 1700000300"
  by (simp_all add: rate_limited_env_def)

lemma make_request_rate_limited_forever:
  "make_request rate_limited_env client u params w = None"
proof (cases "make_request rate_limited_env client u params w")
  case None
  then show ?thesis .
next
  case (Some y)
  have "e = rate_limited_env \<longrightarrow> False"
    if "make_request e client u params w = Some y" for e
    using that
  proof (rule make_request.raw_induct
      [where P = "\<lambda>e client u params w y. e = rate_limited_env \<longrightarrow> False", rotated])
    fix f :: "env \<Rightarrow> github_client \<Rightarrow> url \<Rightarrow> (string \<times> json) list option \<Rightarrow> world
        \<Rightarrow> ((error + json) \<times> world) option"
      and e client u params w y
    assume IH: "\<And>e client u params w y.
        f e client u params w = Some y \<Longrightarrow> e = rate_limited_env \<longrightarrow> False"
    assume "(let response = server e (trace w) (api_request client u params);
            w1 = sent w (api_request client u params)
        in if status_code response = 200
           then Some (response_json response, w1)
           else if status_code response = 403
                then case rate_limit_reset response of
                     BadHeader \<Rightarrow> Some (Inl ValueError, w1)
                     | hdr \<Rightarrow>
                       let reset_time = case hdr of IntHeader t \<Rightarrow> t | _ \<Rightarrow> 0;
                           current_time = clock e (trace w1);
                           sleep_time = max (reset_time - current_time + 60) 60
                       in f e client u params
                           (slept (log_msg w1 (RateLimitedSleeping sleep_time)) sleep_time)
                else if status_code response = 404
                     then Some (Inr (JDict []), log_msg w1 (ResourceNotFound u))
                     else if raises_for_status response
                          then Some (Inl (HTTPError (status_code response)), w1)
                          else f e client u params w1) = Some y"
    then have "e = rate_limited_env \<Longrightarrow> \<exists>w'. f e client u params w' = Some y"
      by (auto simp: Let_def rate_limited_env_answer)
    with IH show "e = rate_limited_env \<longrightarrow> False" by blast
  qed
  with Some show ?thesis by blast
qed

section \<open>The generator: auxiliary facts\<close>

lemma pr_errors_simps [simp]:
  "pr_errors (sent w r) = pr_errors w"
  "pr_errors (slept w t) = pr_errors w"
  "pr_errors (log_msg w (RateLimitedSleeping t)) = pr_errors w"
  "pr_errors (log_msg w (ResourceNotFound u)) = pr_errors w"
  "pr_errors (log_msg w (ErrorProcessingPR n err)) = pr_errors w @ [ErrorProcessingPR n err]"
  by (simp_all add: pr_errors_def sent_def slept_def log_msg_def)

lemma make_request_pr_errors:
  assumes "make_request e client u params w = Some y"
  shows "pr_errors (snd y) = pr_errors w"
proof (rule make_request.raw_induct
    [where P = "\<lambda>e client u params w y. pr_errors (snd y) = pr_errors w", OF _ assms])
  fix f :: "env \<Rightarrow> github_client \<Rightarrow> url \<Rightarrow> (string \<times> json) list option \<Rightarrow> world
      \<Rightarrow> ((error + json) \<times> world) option"
    and e client u params w y
  assume IH: "\<And>e client u params w y.
      f e client u params w = Some y \<Longrightarrow> pr_errors (snd y) = pr_errors w"
  assume "(let response = server e (trace w) (api_request client u params);
          w1 = sent w (api_request client u params)
      in if status_code response = 200
         then Some (response_json response, w1)
         else if status_code response = 403
              then case rate_limit_reset response of
                   BadHeader \<Rightarrow> Some (Inl ValueError, w1)
                   | hdr \<Rightarrow>
                     let reset_time = case hdr of IntHeader t \<Rightarrow> t | _ \<Rightarrow> 0;
                         current_time = clock e (trace w1);
                         sleep_time = max (reset_time - current_time + 60) 60
                     in f e client u params
                         (slept (log_msg w1 (RateLimitedSleeping sleep_time)) sleep_time)
              else if status_code response = 404
                   then Some (Inr (JDict []), log_msg w1 (ResourceNotFound u))
                   else if raises_for_status response
                        then Some (Inl (HTTPError (status_code response)), w1)
                        else f e client u params w1) = Some y"
  then show "pr_errors (snd y) = pr_errors w"
    by (auto simp: Let_def split: if_splits reset_header.splits dest!: IH)
qed

lemma paginate_loop_pr_errors:
  assumes "paginate_loop e client u params page results w = Some y"
  shows "pr_errors (snd y) = pr_errors w"
proof (rule paginate_loop.raw_induct
    [where P = "\<lambda>e client u params page results w y. pr_errors (snd y) = pr_errors w",
      OF _ assms])
  fix f :: "env \<Rightarrow> github_client \<Rightarrow> url \<Rightarrow> (string \<times> json) list \<Rightarrow> int \<Rightarrow> json list
      \<Rightarrow> world \<Rightarrow> ((error + json list) \<times> world) option"
    and e client u params page results w y
  assume IH: "\<And>e client u params page results w y.
      f e client u params page results w = Some y \<Longrightarrow> pr_errors (snd y) = pr_errors w"
  assume "(case make_request e client u (Some (page_params page params)) w of
      None \<Rightarrow> None | Some (Inl err, w1) \<Rightarrow> Some (Inl err, w1)
      | Some (Inr data, w1) \<Rightarrow>
          (case data of
             JList items \<Rightarrow>
               if items = [] then Some (Inr results, w1)
               else if length items < 100 then Some (Inr (results @ items), w1)
               else f e client u (page_params page params) (page + 1) (results @ items) w1
           | _ \<Rightarrow> Some (Inr results, w1))) = Some y"
  then show "pr_errors (snd y) = pr_errors w"
    by (auto split: option.splits sum.splits json.splits if_splits
        dest!: make_request_pr_errors IH)
qed

lemma paginate_pr_errors:
  "paginate e client u params w = Some (r, w') \<Longrightarrow> pr_errors w' = pr_errors w"
  unfolding paginate_def by (drule paginate_loop_pr_errors) simp

lemma get_pr_timeline_pr_errors:
  "get_pr_timeline e client owner repo n w = (r, w') \<Longrightarrow> pr_errors w' = pr_errors w"
  by (auto simp: get_pr_timeline_def Let_def split: if_splits)

lemma generate_pr_stats_pr_errors:
  assumes "generate_pr_stats e client pr owner repo w = Some (r, w')"
  shows "pr_errors w' = pr_errors w"
proof (cases "py_getitem pr ''number''")
  case (Inl err)
  with assms show ?thesis by (simp add: generate_pr_stats_def)
next
  case (Inr n)
  show ?thesis
  proof (cases "\<exists>t s. py_getitem pr ''title'' = Inr t \<and> py_slice_to 50 t = Inr s")
    case False
    with assms Inr show ?thesis
      by (auto simp: generate_pr_stats_def split: sum.splits)
  next
    case True
    then obtain t s where t: "py_getitem pr ''title'' = Inr t" "py_slice_to 50 t = Inr s"
      by blast
    from assms Inr t obtain r1 w1 where
      p: "paginate e client (ReviewsUrl owner repo n) None w = Some (r1, w1)"
      by (auto simp: generate_pr_stats_def get_pr_reviews_def split: option.splits)
    from paginate_pr_errors [OF p] have w1: "pr_errors w1 = pr_errors w" .
    obtain r2 w2 where tl: "get_pr_timeline e client owner repo n w1 = (r2, w2)"
      by (cases "get_pr_timeline e client owner repo n w1")
    from get_pr_timeline_pr_errors [OF tl] have w2: "pr_errors w2 = pr_errors w1" .
    from assms Inr t p tl have "w' = w1 \<or> w' = w2"
      by (auto simp: generate_pr_stats_def get_pr_reviews_def split: sum.splits)
    with w1 w2 show ?thesis by auto
  qed
qed

lemma append_output_doc:
  "map_of fs path = Some (output_doc g done) \<Longrightarrow>
   \<exists>fs'. append_pr_to_json (Some path) stats fs = Inr fs' \<and>
     map_of fs' path = Some (output_doc g (done @ [stats])) \<and>
     (\<forall>p. p \<noteq> path \<longrightarrow> map_of fs' p = map_of fs p)"
  by (simp add: append_pr_to_json_def output_doc_def map_of_dict_set)

lemma process_pr_cases:
  assumes "map_of fs path = Some (output_doc g done)"
    and "process_pr e client (Some path) owner repo pr w fs = Some (r, w', fs')"
  shows "pr_errors w' = pr_errors w \<and>
     (case r of
        Inl err \<Rightarrow> fs' = fs
      | Inr stats \<Rightarrow>
          map_of fs' path = Some (output_doc g (done @ [stats])) \<and>
          (\<forall>p. p \<noteq> path \<longrightarrow> map_of fs' p = map_of fs p))"
proof -
  from assms(2) obtain r0 where g: "generate_pr_stats e client pr owner repo w = Some (r0, w')"
    by (auto simp: process_pr_def split: option.splits sum.splits prod.splits)
  from generate_pr_stats_pr_errors [OF g] have pe: "pr_errors w' = pr_errors w" .
  show ?thesis
  proof (cases r0)
    case (Inl err)
    with g assms(2) pe show ?thesis by (auto simp: process_pr_def)
  next
    case (Inr stats)
    from append_output_doc [OF assms(1), of stats] obtain fs1 where
      a: "append_pr_to_json (Some path) stats fs = Inr fs1"
      "map_of fs1 path = Some (output_doc g (done @ [stats]))"
      "\<forall>p. p \<noteq> path \<longrightarrow> map_of fs1 p = map_of fs p" by blast
    with g Inr assms(2) pe show ?thesis by (auto simp: process_pr_def)
  qed
qed

lemma process_prs_append:
  "process_prs e client out owner repo (xs @ ys) acc w fs =
     (case process_prs e client out owner repo xs acc w fs of
        None \<Rightarrow> None
      | Some (Inl err, w1, fs1) \<Rightarrow> Some (Inl err, w1, fs1)
      | Some (Inr acc1, w1, fs1) \<Rightarrow> process_prs e client out owner repo ys acc1 w1 fs1)"
  by (induction xs arbitrary: acc w fs)
     (auto split: option.splits sum.splits prod.splits)

lemma process_prs_invariant:
  assumes "map_of fs path = Some (output_doc g acc)"
    and "process_prs e client (Some path) owner repo prs acc w fs = Some (Inr final, w', fs')"
  shows "map_of fs' path = Some (output_doc g final) \<and>
     take (length acc) final = acc \<and>
     length final + length (pr_errors w') = length acc + length (pr_errors w) + length prs \<and>
     (\<forall>p. p \<noteq> path \<longrightarrow> map_of fs' p = map_of fs p)"
  using assms
proof (induction prs arbitrary: acc w fs)
  case Nil
  then show ?case by simp
next
  case (Cons pr prs)
  from Cons.prems(2) obtain r w1 fs1 where
    p: "process_pr e client (Some path) owner repo pr w fs = Some (r, w1, fs1)"
    by (auto split: option.splits)
  note c = process_pr_cases [OF Cons.prems(1) p]
  show ?case
  proof (cases r)
    case (Inr stats)
    with c have inv: "map_of fs1 path = Some (output_doc g (acc @ [stats]))"
      and oth: "\<forall>p. p \<noteq> path \<longrightarrow> map_of fs1 p = map_of fs p"
      and pe: "pr_errors w1 = pr_errors w" by auto
    from Cons.prems(2) p Inr have
      "process_prs e client (Some path) owner repo prs (acc @ [stats]) w1 fs1 =
        Some (Inr final, w', fs')" by simp
    from Cons.IH [OF inv this] have ih: "map_of fs' path = Some (output_doc g final)"
      "take (length (acc @ [stats])) final = acc @ [stats]"
      "length final + length (pr_errors w') =
         length (acc @ [stats]) + length (pr_errors w1) + length prs"
      "\<forall>p. p \<noteq> path \<longrightarrow> map_of fs' p = map_of fs1 p" by auto
    from ih(2) have "take (length acc) (take (length (acc @ [stats])) final) = acc"
      by simp
    then have "take (length acc) final = acc" by (simp add: min_def)
    with ih oth pe show ?thesis by simp
  next
    case (Inl err)
    with c have fs1: "fs1 = fs" and pe: "pr_errors w1 = pr_errors w" by auto
    from Cons.prems(2) p Inl obtain n where n: "py_getitem pr ''number'' = Inr n"
      and rest: "process_prs e client (Some path) owner repo prs acc
          (log_msg w1 (ErrorProcessingPR n err)) fs1 = Some (Inr final, w', fs')"
      by (auto split: sum.splits)
    from Cons.IH [OF Cons.prems(1) [folded fs1] rest] pe fs1
    show ?thesis by simp
  qed
qed

lemma length_successes: "length (successes rs) + length (filter isl rs) = length rs"
  by (induction rs rule: successes.induct) auto

lemma process_pr_pr_errors:
  assumes "process_pr e client out owner repo pr w fs = Some (r, w1, fs1)"
  shows "pr_errors w1 = pr_errors w"
proof -
  from assms obtain r0 where "generate_pr_stats e client pr owner repo w = Some (r0, w1)"
    by (auto simp: process_pr_def split: option.splits sum.splits prod.splits)
  then show ?thesis by (rule generate_pr_stats_pr_errors)
qed

lemma process_prs_try_results:
  "process_prs e client out owner repo prs acc w fs = Some (Inr dn, w', fs') \<Longrightarrow>
   length (try_results e client out owner repo prs w fs) = length prs \<and>
   dn = acc @ successes (try_results e client out owner repo prs w fs) \<and>
   length (pr_errors w') =
     length (pr_errors w) + length (filter isl (try_results e client out owner repo prs w fs))"
proof (induction prs arbitrary: acc w fs)
  case Nil
  then show ?case by simp
next
  case (Cons pr prs)
  from Cons.prems obtain r w1 fs1 where
    p: "process_pr e client out owner repo pr w fs = Some (r, w1, fs1)"
    by (auto split: option.splits)
  note pe = process_pr_pr_errors [OF p]
  show ?case
  proof (cases r)
    case (Inr stats)
    with Cons.prems p have
      "process_prs e client out owner repo prs (acc @ [stats]) w1 fs1 = Some (Inr dn, w', fs')"
      by simp
    from Cons.IH [OF this] p Inr pe show ?thesis by simp
  next
    case (Inl err)
    with Cons.prems p obtain n where n: "py_getitem pr ''number'' = Inr n"
      and rest: "process_prs e client out owner repo prs acc
          (log_msg w1 (ErrorProcessingPR n err)) fs1 = Some (Inr dn, w', fs')"
      by (auto split: sum.splits)
    from Cons.IH [OF rest] p Inl n pe show ?thesis by simp
  qed
qed

lemma append_views_output_doc:
  "map_of fs0 path = Some (output_doc g d0) \<Longrightarrow>
   append_views (Some path) stats fs0 =
     [Holds (output_doc g d0), Torn, Holds (output_doc g (d0 @ [stats]))]"
  by (simp add: append_views_def write_views_def append_pr_to_json_def output_doc_def
      map_of_dict_set)

section \<open>The run over three pull requests\<close>

lemma make_request_raise:
  "status_code (server e (trace w) (api_request client u params)) \<notin> {200, 403, 404} \<Longrightarrow>
   raises_for_status (server e (trace w) (api_request client u params)) \<Longrightarrow>
   make_request e client u params w =
     Some (Inl (HTTPError (status_code (server e (trace w) (api_request client u params)))),
           sent w (api_request client u params))"
  by (subst make_request.simps) (simp add: Let_def)

lemma paginate_loop_error:
  "make_request e client u (Some (page_params page params)) w = Some (Inl err, w1) \<Longrightarrow>
   paginate_loop e client u params page results w = Some (Inl err, w1)"
  by (subst paginate_loop.simps) simp

lemma paginate_one_short_page:
  assumes "status_code (server e (trace w)
      (api_request client u (Some (page_params 1 (case params of None \<Rightarrow> [] | Some p \<Rightarrow> p))))) = 200"
    and "body (server e (trace w)
      (api_request client u (Some (page_params 1 (case params of None \<Rightarrow> [] | Some p \<Rightarrow> p))))) =
        Some (JList items)"
    and "length items < 100"
  shows "paginate e client u params w =
     Some (Inr items,
       sent w (api_request client u
         (Some (page_params 1 (case params of None \<Rightarrow> [] | Some p \<Rightarrow> p)))))"
proof -
  let ?ps = "case params of None \<Rightarrow> [] | Some p \<Rightarrow> p"
  have "make_request e client u (Some (page_params 1 ?ps)) w =
      Some (Inr (JList items), sent w (api_request client u (Some (page_params 1 ?ps))))"
    using assms(1,2) by (simp add: make_request_200 response_json_def)
  from paginate_loop_short [OF this assms(3), of "[]"] show ?thesis
    by (simp add: paginate_def)
qed

lemma paginate_first_raises:
  assumes "status_code (server e (trace w)
      (api_request client u (Some (page_params 1 (case params of None \<Rightarrow> [] | Some p \<Rightarrow> p))))) = c"
    and "c \<notin> {200, 403, 404}" and "400 \<le> c" and "c < 600"
  shows "paginate e client u params w =
     Some (Inl (HTTPError c),
       sent w (api_request client u
         (Some (page_params 1 (case params of None \<Rightarrow> [] | Some p \<Rightarrow> p)))))"
proof -
  let ?ps = "case params of None \<Rightarrow> [] | Some p \<Rightarrow> p"
  have "make_request e client u (Some (page_params 1 ?ps)) w =
      Some (Inl (HTTPError c), sent w (api_request client u (Some (page_params 1 ?ps))))"
    using assms make_request_raise [of e w client u "Some (page_params 1 ?ps)"]
    by (simp add: raises_for_status_def)
  from paginate_loop_error [OF this] show ?thesis
    by (simp add: paginate_def)
qed

lemma three_pr_pulls:
  "get_pull_requests three_pr_env client ''octo'' ''demo'' ''all'' w =
     Some (Inr [pr_json 1, pr_json 2, pr_json 3],
       sent w (api_request client (PullsUrl ''octo'' ''demo'')
                 (Some (page_params 1 [(''state'', JStr ''all'')]))))"
  unfolding get_pull_requests_def
  by (subst paginate_one_short_page [where items = "[pr_json 1, pr_json 2, pr_json 3]"])
     (simp_all add: three_pr_env_def api_request_def)

lemma three_pr_reviews:
  "k \<noteq> 2 \<Longrightarrow> get_pr_reviews three_pr_env client ''octo'' ''demo'' (JInt k) w =
     Some (Inr example_reviews, sent w (reviews_request client k))"
  unfolding get_pr_reviews_def reviews_request_def
  by (subst paginate_one_short_page [where items = example_reviews])
     (simp_all add: three_pr_env_def api_request_def example_reviews_def)

lemma three_pr_reviews_fail:
  "get_pr_reviews three_pr_env client ''octo'' ''demo'' (JInt 2) w =
     Some (Inl (HTTPError 500), sent w (reviews_request client 2))"
  unfolding get_pr_reviews_def reviews_request_def
  by (subst paginate_first_raises [where c = 500])
     (simp_all add: three_pr_env_def api_request_def)

lemma three_pr_timeline:
  "get_pr_timeline three_pr_env client ''octo'' ''demo'' (JInt k) w =
     (Inr (JList []), sent w (timeline_request client ''octo'' ''demo'' (JInt k)))"
  by (simp add: get_pr_timeline_def three_pr_env_def timeline_request_def response_json_def)

lemma three_pr_assemble:
  "assemble_stats (pr_json k) example_reviews
     [JDict [(''state'', JStr ''APPROVED''), (''created_at'', JStr ''2024-01-02T00:00:00Z''),
                (''author'', JNull)],
         JDict [(''state'', JStr ''COMMENTED''), (''created_at'', JStr ''2024-01-01T12:00:00Z''),
                (''author'', JNull)]] (JList []) = Inr (pr_stats_of k)"
  by (simp add: assemble_stats_def pr_json_def pr_stats_of_def make_pr_meta_def
      get_request_to_review_timestamp_def get_approval_timestamp_def
      get_review_given_timestamp_def example_reviews_def is_approved_def is_substantive_def
      py_in_def py_min_key_def submitted_at_key_def)

lemma three_pr_review_stats:
  "map_e get_review_stat example_reviews =
     Inr [JDict [(''state'', JStr ''APPROVED''), (''created_at'', JStr ''2024-01-02T00:00:00Z''),
                (''author'', JNull)],
         JDict [(''state'', JStr ''COMMENTED''), (''created_at'', JStr ''2024-01-01T12:00:00Z''),
                (''author'', JNull)]]"
  by (simp add: example_reviews_def get_review_stat_def)

lemma pr_json_fields:
  "py_getitem (pr_json k) ''number'' = Inr (JInt k)"
  "py_getitem (pr_json k) ''title'' = Inr (JStr ''A change'')"
  by (simp_all add: pr_json_def)

lemma three_pr_stats:
  "k \<noteq> 2 \<Longrightarrow> generate_pr_stats three_pr_env client (pr_json k) ''octo'' ''demo'' w =
     Some (Inr (pr_stats_of k),
           sent (sent w (reviews_request client k))
             (timeline_request client ''octo'' ''demo'' (JInt k)))"
  by (simp add: generate_pr_stats_def pr_json_fields three_pr_reviews three_pr_review_stats
      three_pr_timeline three_pr_assemble)

lemma three_pr_stats_fail:
  "generate_pr_stats three_pr_env client (pr_json 2) ''octo'' ''demo'' w =
     Some (Inl (HTTPError 500), sent w (reviews_request client 2))"
  by (simp add: generate_pr_stats_def pr_json_fields three_pr_reviews_fail)

lemma three_pr_process:
  "k \<noteq> 2 \<Longrightarrow>
   process_pr three_pr_env client (Some ''out.json'') ''octo'' ''demo'' (pr_json k) w
       [(''out.json'', output_doc g done)] =
     Some (Inr (pr_stats_of k),
           sent (sent w (reviews_request client k))
             (timeline_request client ''octo'' ''demo'' (JInt k)),
           [(''out.json'', output_doc g (done @ [pr_stats_of k]))])"
  by (simp add: process_pr_def three_pr_stats append_pr_to_json_def output_doc_def)

lemma three_pr_process_fail:
  "process_pr three_pr_env client (Some ''out.json'') ''octo'' ''demo'' (pr_json 2) w fs =
     Some (Inl (HTTPError 500), sent w (reviews_request client 2), fs)"
  by (simp add: process_pr_def three_pr_stats_fail)

lemma three_pr_start:
  "start_run three_pr_env client ''octo/demo'' (Some ''out.json'') world0 [] =
     Some (Inr (''octo'', ''demo'', [pr_json 1, pr_json 2, pr_json 3]),
           sent world0 (api_request client (PullsUrl ''octo'' ''demo'')
                 (Some (page_params 1 [(''state'', JStr ''all'')]))),
           [(''out.json'', output_doc ''2024-01-01T00:00:00+00:00'' [])])"
  by (simp add: start_run_def split_repo_spec_def three_pr_pulls init_json_output_def
      output_doc_def)
     (simp add: three_pr_env_def)

lemma three_pr_loop:
  "process_prs three_pr_env client (Some ''out.json'') ''octo'' ''demo''
       [pr_json 1, pr_json 2, pr_json 3] []
       (sent world0 (api_request client (PullsUrl ''octo'' ''demo'')
                 (Some (page_params 1 [(''state'', JStr ''all'')]))))
       [(''out.json'', output_doc ''2024-01-01T00:00:00+00:00'' [])] =
     Some (Inr [pr_stats_of 1, pr_stats_of 3],
           \<lparr>trace = three_pr_trace client, logged = [ErrorProcessingPR (JInt 2) (HTTPError 500)]\<rparr>,
           [(''out.json'', output_doc ''2024-01-01T00:00:00+00:00'' [pr_stats_of 1, pr_stats_of 3])])"
  by (simp add: three_pr_process three_pr_process_fail pr_json_fields
      sent_def log_msg_def world0_def three_pr_trace_def)

lemma three_pr_loop_1:
  "process_prs three_pr_env client (Some ''out.json'') ''octo'' ''demo''
       [pr_json 1] []
       (sent world0 (api_request client (PullsUrl ''octo'' ''demo'')
                 (Some (page_params 1 [(''state'', JStr ''all'')]))))
       [(''out.json'', output_doc ''2024-01-01T00:00:00+00:00'' [])] =
     Some (Inr [pr_stats_of 1],
           \<lparr>trace = take 3 (three_pr_trace client), logged = []\<rparr>,
           [(''out.json'', output_doc ''2024-01-01T00:00:00+00:00'' [pr_stats_of 1])])"
  by (simp add: three_pr_process sent_def world0_def three_pr_trace_def)

lemma three_pr_loop_2:
  "process_prs three_pr_env client (Some ''out.json'') ''octo'' ''demo''
       [pr_json 1, pr_json 2] []
       (sent world0 (api_request client (PullsUrl ''octo'' ''demo'')
                 (Some (page_params 1 [(''state'', JStr ''all'')]))))
       [(''out.json'', output_doc ''2024-01-01T00:00:00+00:00'' [])] =
     Some (Inr [pr_stats_of 1],
           \<lparr>trace = take 4 (three_pr_trace client),
            logged = [ErrorProcessingPR (JInt 2) (HTTPError 500)]\<rparr>,
           [(''out.json'', output_doc ''2024-01-01T00:00:00+00:00'' [pr_stats_of 1])])"
  by (simp add: three_pr_process three_pr_process_fail pr_json_fields
      sent_def log_msg_def world0_def three_pr_trace_def)

lemma three_pr_utc: "utc_now three_pr_env tr = ''2024-01-01T00:00:00+00:00''"
  by (simp add: three_pr_env_def)

lemma process_pr_error:
  assumes "process_pr e client out owner repo pr w fs = Some (Inl err, w1, fs1)"
  shows "fs1 = fs \<and> pr_errors w1 = pr_errors w"
proof -
  from assms obtain r0 where g: "generate_pr_stats e client pr owner repo w = Some (r0, w1)"
    and "fs1 = fs"
    by (auto simp: process_pr_def split: option.splits sum.splits prod.splits)
  with generate_pr_stats_pr_errors [OF g] show ?thesis by simp
qed

lemma start_run_doc:
  assumes "start_run e client repo_spec (Some path) w fs = Some (Inr (owner, repo, prs), w1, fs1)"
  shows "map_of fs1 path = Some (output_doc (utc_now e (trace w1)) [])"
  using assms
  by (auto simp: start_run_def init_json_output_def output_doc_def map_of_dict_set Let_def
      split: sum.splits option.splits prod.splits)

lemma three_pr_run:
  "generate_stats three_pr_env client ''octo/demo'' (Some ''out.json'') world0 [] =
       Some (Inr \<lparr>repository =
                    [(''name'', ''demo''), (''owner'', ''octo''),
                     (''url'', ''https://github.com/octo/demo'')],
                  generated_at = ''2024-01-01T00:00:00+00:00'',
                  pull_requests = [pr_stats_of 1, pr_stats_of 3]\<rparr>,
             \<lparr>trace = three_pr_trace client,
              logged = [ErrorProcessingPR (JInt 2) (HTTPError 500)]\<rparr>,
             [(''out.json'',
               output_doc ''2024-01-01T00:00:00+00:00'' [pr_stats_of 1, pr_stats_of 3])])"
  by (simp add: generate_stats_def three_pr_start three_pr_loop three_pr_utc
      del: process_prs.simps)

lemma three_pr_upto_2:
  "run_upto 2 three_pr_env client ''octo/demo'' (Some ''out.json'') world0 [] =
     Some (Inr [pr_stats_of 1],
           \<lparr>trace = take 4 (three_pr_trace client),
            logged = [ErrorProcessingPR (JInt 2) (HTTPError 500)]\<rparr>,
           [(''out.json'', output_doc ''2024-01-01T00:00:00+00:00'' [pr_stats_of 1])])"
  by (simp add: run_upto_def three_pr_start numeral_2_eq_2 three_pr_loop_2
      del: process_prs.simps)

lemma three_pr_upto_3:
  "run_upto 3 three_pr_env client ''octo/demo'' (Some ''out.json'') world0 [] =
     Some (Inr [pr_stats_of 1, pr_stats_of 3],
           \<lparr>trace = three_pr_trace client,
            logged = [ErrorProcessingPR (JInt 2) (HTTPError 500)]\<rparr>,
           [(''out.json'',
             output_doc ''2024-01-01T00:00:00+00:00'' [pr_stats_of 1, pr_stats_of 3])])"
  by (simp add: run_upto_def three_pr_start three_pr_loop del: process_prs.simps)

section \<open>The derived timestamps\<close>



text \<open>
  Claim C4. For a list \<open>rs\<close> of review objects in which every approved review carries a
  string \<^verbatim>\<open>submitted_at\<close>: when at least one review is approved, the first-approval
  timestamp is the least \<^verbatim>\<open>submitted_at\<close>, in the order of strings, among exactly the
  approved reviews; when none is approved, it is \<^verbatim>\<open>None\<close>.
\<close>

theorem approval_timestamp_spec:
  assumes "list_all is_dict rs"
    and "list_all (\<lambda>r. is_str (field r ''submitted_at'')) (filter approved_review rs)"
  shows "get_approval_timestamp rs =
     Inr (if list_ex approved_review rs
          then JStr (Min (set (map sub_str (filter approved_review rs))))
          else JNull)"
proof -
  have f: "filter_e is_approved rs = Inr (filter approved_review rs)"
    using assms(1) by (intro filter_e_total) (simp add: list_all_iff is_approved_dict)
  show ?thesis
  proof (cases "filter approved_review rs = []")
    case True
    then have "\<not> list_ex approved_review rs"
      by (auto simp: list_ex_iff filter_empty_conv)
    with True f show ?thesis by (simp add: get_approval_timestamp_def)
  next
    case False
    then have ex: "list_ex approved_review rs"
      by (auto simp: list_ex_iff filter_empty_conv)
    have "\<forall>r\<in>set (filter approved_review rs). is_dict r \<and> is_str (field r ''submitted_at'')"
      using assms by (auto simp: list_all_iff)
    from min_timestamp [OF False this] f False ex show ?thesis
      by (simp add: get_approval_timestamp_def)
  qed
qed

theorem approval_timestamp_witness:
  "list_all is_dict two_approvals \<and>
   list_all (\<lambda>r. is_str (field r ''submitted_at'')) (filter approved_review two_approvals) \<and>
   list_ex approved_review two_approvals \<and>
   get_approval_timestamp two_approvals = Inr (JStr ''2024-01-03T00:00:00Z'') \<and>
   get_approval_timestamp [] = Inr JNull"
  using approval_timestamp_spec [of two_approvals] approval_timestamp_spec [of "[]"]
  by (simp add: two_approvals_def approved_review_def sub_str_def)

text \<open>
  Claim C5, at the states the service reports. For every list of review objects whose
  states are changes-requested (\<^verbatim>\<open>CHANGES_REQUESTED\<close>) or commented (\<^verbatim>\<open>COMMENTED\<close>),
  \<^verbatim>\<open>_get_review_given_timestamp\<close> returns \<^verbatim>\<open>None\<close>: it looks for the states
  \<^verbatim>\<open>REQUEST_CHANGES\<close> and \<^verbatim>\<open>COMMENT\<close>. For the pull request of the end-to-end example (not a
  draft, created at \<^verbatim>\<open>2024-01-01T00:00:00Z\<close>, with an approved review without body at
  \<^verbatim>\<open>2024-01-02T00:00:00Z\<close> and a commented review at \<^verbatim>\<open>2024-01-01T12:00:00Z\<close>) the
  ready-for-review and first-approval timestamps are \<^verbatim>\<open>2024-01-01T00:00:00Z\<close> and
  \<^verbatim>\<open>2024-01-02T00:00:00Z\<close>, and the first-substantive-review timestamp is \<^verbatim>\<open>None\<close>, where
  the least submission time among the substantive reviews is \<^verbatim>\<open>2024-01-01T12:00:00Z\<close>.
\<close>

theorem review_given_timestamp_reported_states:
  assumes "list_all is_dict rs" and "list_all verdict_review rs"
  shows "get_review_given_timestamp rs = Inr JNull \<and>
     list_ex substantive_review example_reviews \<and>
     Min (set (map sub_str (filter substantive_review example_reviews))) =
       ''2024-01-01T12:00:00Z'' \<and>
     get_request_to_review_timestamp example_pr (JList []) =
       Inr (JStr ''2024-01-01T00:00:00Z'') \<and>
     get_approval_timestamp example_reviews = Inr (JStr ''2024-01-02T00:00:00Z'') \<and>
     get_review_given_timestamp example_reviews = Inr JNull"
proof -
  have "\<forall>r\<in>set rs. is_substantive r = Inr ((\<lambda>r. False) r)"
    using assms by (simp add: list_all_iff is_substantive_verdict)
  then have "filter_e is_substantive rs = Inr (filter (\<lambda>r. False) rs)"
    by (rule filter_e_total)
  then have general: "get_review_given_timestamp rs = Inr JNull"
    by (simp add: get_review_given_timestamp_def)
  have ex: "list_ex substantive_review example_reviews"
    by (simp add: example_reviews_def substantive_review_def)
  have least: "Min (set (map sub_str (filter substantive_review example_reviews))) =
       ''2024-01-01T12:00:00Z''"
    by (simp add: example_reviews_def substantive_review_def sub_str_def)
  have ready: "get_request_to_review_timestamp example_pr (JList []) =
      Inr (JStr ''2024-01-01T00:00:00Z'')"
    by (simp add: get_request_to_review_timestamp_def example_pr_def)
  have approval: "get_approval_timestamp example_reviews = Inr (JStr ''2024-01-02T00:00:00Z'')"
    by (simp add: get_approval_timestamp_def example_reviews_def is_approved_def
        py_min_key_def submitted_at_key_def)
  have given: "get_review_given_timestamp example_reviews = Inr JNull"
    by (simp add: get_review_given_timestamp_def example_reviews_def is_substantive_def
        py_in_def)
  from general ex least ready approval given show ?thesis by simp
qed

theorem review_given_timestamp_reported_states_witness:
  "list_all is_dict [changes_requested_review] \<and>
   list_all verdict_review [changes_requested_review] \<and>
   substantive_review changes_requested_review \<and>
   get_review_given_timestamp [changes_requested_review] = Inr JNull"
  using review_given_timestamp_reported_states [of "[changes_requested_review]"]
  by (simp add: changes_requested_review_def verdict_review_def substantive_review_def)

section \<open>The client\<close>

text \<open>
  Claim C6. Against a page source, whose pages 1 to \<open>n\<close> are lists of 100 items or more and
  whose page \<open>n + 1\<close> is a shorter list or no list at all, \<^verbatim>\<open>_paginate\<close> returns the items of
  the pages 1 to \<open>n + 1\<close> in order (nothing for a page that is no list), and sends exactly
  the \<open>n + 1\<close> requests for the pages 1, 2, ..., \<open>n + 1\<close> of the URL, each with
  \<^verbatim>\<open>per_page\<close> 100. Against a source with pages of 100, 100 and 37 items it returns 237
  items after 3 requests.
\<close>

theorem paginate_spec:
  assumes "serves_pages e u src"
    and "\<forall>q. 1 \<le> q \<and> q < 1 + int n \<longrightarrow> full_page (src q)"
    and "\<not> full_page (src (1 + int n))"
  shows "paginate e client u params w =
       Some (Inr (concat (map (\<lambda>q. page_items (src q)) [1..1 + int n])),
             w\<lparr>trace := trace w @
                  map Get (page_requests client u (case params of None \<Rightarrow> [] | Some p \<Rightarrow> p)
                             1 (Suc n))\<rparr>) \<and>
     map (\<lambda>r. param r ''page'')
         (page_requests client u (case params of None \<Rightarrow> [] | Some p \<Rightarrow> p) 1 (Suc n)) =
       map (\<lambda>q. Some (JInt q)) [1..1 + int n] \<and>
     (\<forall>r\<in>set (page_requests client u (case params of None \<Rightarrow> [] | Some p \<Rightarrow> p) 1 (Suc n)).
        req_url r = u \<and> param r ''per_page'' = Some (JInt 100)) \<and>
     (case paginate (page_source_env three_pages) client u params world0 of
        Some (Inr items, w') \<Rightarrow> length items = 237 \<and> length (trace w') = 3
      | _ \<Rightarrow> False)"
proof -
  let ?ps = "case params of None \<Rightarrow> [] | Some p \<Rightarrow> p"
  have run: "paginate e client u params w =
       Some (Inr (concat (map (\<lambda>q. page_items (src q)) [1..1 + int n])),
             w\<lparr>trace := trace w @ map Get (page_requests client u ?ps 1 (Suc n))\<rparr>)"
    unfolding paginate_def
    using paginate_loop_pages [OF assms(1), of 1 n client ?ps "[]" w] assms(2,3) by simp
  have pages: "map (\<lambda>r. param r ''page'') (page_requests client u ?ps 1 (Suc n)) =
       map (\<lambda>q. Some (JInt q)) [1..1 + int n]"
    using page_requests_pages [of client u ?ps 1 "Suc n"] by simp
  have same: "\<forall>r\<in>set (page_requests client u ?ps 1 (Suc n)).
        req_url r = u \<and> param r ''per_page'' = Some (JInt 100)"
    using page_requests_same by blast
  have three: "case paginate (page_source_env three_pages) client u params world0 of
        Some (Inr items, w') \<Rightarrow> length items = 237 \<and> length (trace w') = 3
      | _ \<Rightarrow> False"
    by (simp add: three_pages_run length_page_requests)
  from run pages same three show ?thesis by blast
qed

theorem paginate_witness:
  "serves_pages (page_source_env three_pages) (PullsUrl ''o'' ''r'') three_pages \<and>
   full_page (three_pages 1) \<and> full_page (three_pages 2) \<and> \<not> full_page (three_pages 3) \<and>
   paginate (page_source_env three_pages) (GitHubAPIClient ''t'') (PullsUrl ''o'' ''r'')
       (Some [(''state'', JStr ''all'')]) world0 =
     Some (Inr (replicate 100 (JInt 1) @ replicate 100 (JInt 2) @ replicate 37 (JInt 3)),
           \<lparr>trace =
              map (\<lambda>q. Get \<lparr>req_url = PullsUrl ''o'' ''r'',
                             req_params = Some [(''state'', JStr ''all''), (''page'', JInt q),
                                                (''per_page'', JInt 100)],
                             req_headers = session_headers (GitHubAPIClient ''t'')\<rparr>)
                  [1, 2, 3],
            logged = []\<rparr>)"
proof -
  have a: "\<forall>q. 1 \<le> q \<and> q < 1 + int 2 \<longrightarrow> full_page (three_pages q)"
    by (auto simp: three_pages_def)
  have b: "\<not> full_page (three_pages (1 + int 2))"
    by (simp add: three_pages_def)
  have up: "[1..1 + int 2] = [1, 2, 3]" by (simp add: upto.simps)
  from paginate_spec [where e = "page_source_env three_pages" and u = "PullsUrl ''o'' ''r''"
      and src = three_pages and n = 2 and client = "GitHubAPIClient ''t''"
      and params = "Some [(''state'', JStr ''all'')]" and w = world0,
      OF serves_page_source_env a b]
  show ?thesis
    unfolding up
    by (simp add: serves_page_source_env three_pages_full three_pages_def world0_def
        numeral_2_eq_2 page_params_def api_request_def)
qed

text \<open>
  Claim C9. \<^verbatim>\<open>get_pr_timeline\<close> sends exactly one GET request and logs nothing. The request
  goes to the timeline URL with no query parameters (no page is asked for) and with the
  \<^verbatim>\<open>Accept\<close> header \<^verbatim>\<open>application/vnd.github.mockingbird-preview+json\<close>, where the requests of
  \<^verbatim>\<open>_make_request\<close> carry \<^verbatim>\<open>application/vnd.github.v3+json\<close>. The caller receives the body of
  that one response when its status is 200 and the empty list otherwise: against the
  service with three pages, the first page only.
\<close>

theorem get_pr_timeline_spec:
  "trace (snd (get_pr_timeline e (GitHubAPIClient tok) owner repo n w)) =
     trace w @ [Get (timeline_request (GitHubAPIClient tok) owner repo n)] \<and>
   logged (snd (get_pr_timeline e (GitHubAPIClient tok) owner repo n w)) = logged w \<and>
   req_url (timeline_request (GitHubAPIClient tok) owner repo n) = TimelineUrl owner repo n \<and>
   req_params (timeline_request (GitHubAPIClient tok) owner repo n) = None \<and>
   map_of (req_headers (timeline_request (GitHubAPIClient tok) owner repo n)) ''Accept'' =
     Some ''application/vnd.github.mockingbird-preview+json'' \<and>
   map_of (req_headers (api_request (GitHubAPIClient tok) u params)) ''Accept'' =
     Some ''application/vnd.github.v3+json'' \<and>
   fst (get_pr_timeline e (GitHubAPIClient tok) owner repo n w) =
     (if status_code (server e (trace w) (timeline_request (GitHubAPIClient tok) owner repo n)) = 200
      then response_json (server e (trace w) (timeline_request (GitHubAPIClient tok) owner repo n))
      else Inr (JList [])) \<and>
   fst (get_pr_timeline (page_source_env three_pages) (GitHubAPIClient tok) owner repo n world0) =
     Inr (JList (replicate 100 (JInt 1)))"
  by (simp add: get_pr_timeline_def Let_def sent_def timeline_request_def GitHubAPIClient_def
      api_request_def page_source_env_def response_json_def param_def three_pages_def world0_def)

theorem get_pr_timeline_witness:
  "get_pr_timeline (page_source_env three_pages) (GitHubAPIClient ''t'') ''o'' ''r'' (JInt 7) world0 =
     (Inr (JList (replicate 100 (JInt 1))),
      \<lparr>trace = [Get \<lparr>req_url = TimelineUrl ''o'' ''r'' (JInt 7), req_params = None,
                     req_headers =
                       [(''Authorization'', ''token t''),
                        (''Accept'', ''application/vnd.github.mockingbird-preview+json''),
                        (''User-Agent'', ''GitHub-PR-Stats-Generator'')]\<rparr>],
       logged = []\<rparr>)"
proof -
  obtain r w' where eq: "get_pr_timeline (page_source_env three_pages) (GitHubAPIClient ''t'')
      ''o'' ''r'' (JInt 7) world0 = (r, w')" by (cases "get_pr_timeline (page_source_env three_pages) (GitHubAPIClient ''t'')
      ''o'' ''r'' (JInt 7) world0")
  from get_pr_timeline_spec [where e = "page_source_env three_pages" and tok = "''t''"
      and owner = "''o''" and repo = "''r''" and n = "JInt 7" and w = world0
      and u = "PullsUrl ''o'' ''r''" and params = None]
  have "trace w' = trace world0 @ [Get (timeline_request (GitHubAPIClient ''t'') ''o'' ''r'' (JInt 7))]"
    and "logged w' = logged world0" and "r = Inr (JList (replicate 100 (JInt 1)))"
    unfolding eq fst_conv snd_conv by blast+
  then show ?thesis
    unfolding eq
    by (cases w') (simp add: timeline_request_def GitHubAPIClient_def world0_def)
qed

text \<open>
  Claim C7, at a rate-limited service. \<^verbatim>\<open>get_pr_timeline\<close>, answered with status 403,
  returns the empty list after its one request: it neither sleeps nor asks again. A request
  sent through \<^verbatim>\<open>_make_request\<close> and answered with status 403 and a reset time 300 seconds
  ahead sleeps \<open>max (300 + 60) 60 = 360\<close> seconds and sends the same request again; as
  long as the service answers 403 it goes on doing so and never returns.
\<close>

theorem get_pr_timeline_rate_limited:
  "get_pr_timeline rate_limited_env (GitHubAPIClient ''t'') ''o'' ''r'' (JInt 7) world0 =
     (Inr (JList []),
      \<lparr>trace = [Get (timeline_request (GitHubAPIClient ''t'') ''o'' ''r'' (JInt 7))],
       logged = []\<rparr>) \<and>
   make_request limited_once_env (GitHubAPIClient ''t'') (ReviewsUrl ''o'' ''r'' (JInt 7)) None world0 =
     Some (Inr (JList [JInt 1]),
           \<lparr>trace = [Get (api_request (GitHubAPIClient ''t'') (ReviewsUrl ''o'' ''r'' (JInt 7)) None),
                     Sleep 360,
                     Get (api_request (GitHubAPIClient ''t'') (ReviewsUrl ''o'' ''r'' (JInt 7)) None)],
            logged = [RateLimitedSleeping 360]\<rparr>) \<and>
   make_request rate_limited_env (GitHubAPIClient ''t'') (ReviewsUrl ''o'' ''r'' (JInt 7)) None world0 =
     None"
proof -
  have a: "get_pr_timeline rate_limited_env (GitHubAPIClient ''t'') ''o'' ''r'' (JInt 7) world0 =
     (Inr (JList []),
      \<lparr>trace = [Get (timeline_request (GitHubAPIClient ''t'') ''o'' ''r'' (JInt 7))],
       logged = []\<rparr>)"
    by (simp add: get_pr_timeline_def rate_limited_env_def world0_def sent_def)
  let ?r = "api_request (GitHubAPIClient ''t'') (ReviewsUrl ''o'' ''r'' (JInt 7)) None"
  have b: "make_request limited_once_env (GitHubAPIClient ''t'') (ReviewsUrl ''o'' ''r'' (JInt 7)) None world0 =
      make_request limited_once_env (GitHubAPIClient ''t'') (ReviewsUrl ''o'' ''r'' (JInt 7)) None
        \<lparr>trace = [Get ?r, Sleep 360], logged = [RateLimitedSleeping 360]\<rparr>"
    by (subst make_request_403 [where t = 1700000300])
       (simp_all add: limited_once_env_def world0_def sent_def slept_def log_msg_def)
  have c: "make_request limited_once_env (GitHubAPIClient ''t'') (ReviewsUrl ''o'' ''r'' (JInt 7)) None
        \<lparr>trace = [Get ?r, Sleep 360], logged = [RateLimitedSleeping 360]\<rparr> =
      Some (Inr (JList [JInt 1]),
           \<lparr>trace = [Get ?r, Sleep 360, Get ?r], logged = [RateLimitedSleeping 360]\<rparr>)"
    by (subst make_request_200)
       (simp_all add: limited_once_env_def sent_def response_json_def)
  from a b c make_request_rate_limited_forever show ?thesis by simp
qed

section \<open>The output file\<close>

text \<open>
  Claim C10. When the output file holds an object whose \<^verbatim>\<open>pull_requests\<close> field is a list,
  \<^verbatim>\<open>_append_pr_to_json\<close> succeeds; afterwards the file holds an object with the same keys in
  the same order, every field other than \<^verbatim>\<open>pull_requests\<close> (so \<^verbatim>\<open>repository\<close> and
  \<^verbatim>\<open>generated_at\<close>) has the value it had, \<^verbatim>\<open>pull_requests\<close> is the old list with the
  serialized record added as its last element, and no other file has changed.
\<close>

theorem append_pr_to_json_frame:
  assumes "map_of fs path = Some (JDict d)"
    and "map_of d ''pull_requests'' = Some (JList entries)"
  shows "\<exists>fs' d'. append_pr_to_json (Some path) stats fs = Inr fs' \<and>
     map_of fs' path = Some (JDict d') \<and>
     (\<forall>p. p \<noteq> path \<longrightarrow> map_of fs' p = map_of fs p) \<and>
     map_of d' ''repository'' = map_of d ''repository'' \<and>
     map_of d' ''generated_at'' = map_of d ''generated_at'' \<and>
     (\<forall>k. k \<noteq> ''pull_requests'' \<longrightarrow> map_of d' k = map_of d k) \<and>
     map fst d' = map fst d \<and>
     map_of d' ''pull_requests'' = Some (JList (entries @ [asdict stats]))"
  using assms
  by (simp add: append_pr_to_json_def map_of_dict_set dict_set_keys)


theorem append_pr_to_json_witness:
  "map_of [(''out.json'', output_doc ''2024-01-01T00:00:00+00:00'' [])] ''out.json'' =
     Some (output_doc ''2024-01-01T00:00:00+00:00'' []) \<and>
   append_pr_to_json (Some ''out.json'') example_stats
       [(''out.json'', output_doc ''2024-01-01T00:00:00+00:00'' [])] =
     Inr [(''out.json'', output_doc ''2024-01-01T00:00:00+00:00'' [example_stats])]"
  using append_pr_to_json_frame
    [of "[(''out.json'', output_doc ''2024-01-01T00:00:00+00:00'' [])]" "''out.json''"
        "[(''repository'', JDict []), (''generated_at'', JStr ''2024-01-01T00:00:00+00:00''),
          (''pull_requests'', JList [])]" "[]" example_stats]
  by (simp add: output_doc_def append_pr_to_json_def)

section \<open>The run\<close>

text \<open>
  Claim C8. In a run of the loop of \<^verbatim>\<open>generate_stats\<close> over the pull requests
  \<open>before @ pr # rest\<close>, where the pull requests \<open>before\<close> have been processed and the
  \<^verbatim>\<open>try\<close> block then raises \<open>err\<close> on \<open>pr\<close>, a pull request that carries a number \<open>n\<close>:
  the run goes on with the pull requests \<open>rest\<close>, from the statistics and the files as they
  were before \<open>pr\<close> (the pull request is skipped), and with exactly one more error
  logged, which names \<open>n\<close> and \<open>err\<close>. Over three pull requests of which the second raises,
  the run returns, and the file holds, the statistics of the first and the third, in that
  order, and the log holds the one error for number 2.
\<close>

theorem skip_failed_pr:
  assumes "process_prs e client out owner repo before [] w fs = Some (Inr acc, w0, fs0)"
    and "process_pr e client out owner repo pr w0 fs0 = Some (Inl err, w1, fs1)"
    and "py_getitem pr ''number'' = Inr n"
  shows "process_prs e client out owner repo (before @ pr # rest) [] w fs =
       process_prs e client out owner repo rest acc
         (log_msg w1 (ErrorProcessingPR n err)) fs0 \<and>
     fs1 = fs0 \<and>
     pr_errors (log_msg w1 (ErrorProcessingPR n err)) = pr_errors w0 @ [ErrorProcessingPR n err] \<and>
     generate_stats three_pr_env client ''octo/demo'' (Some ''out.json'') world0 [] =
       Some (Inr \<lparr>repository =
                    [(''name'', ''demo''), (''owner'', ''octo''),
                     (''url'', ''https://github.com/octo/demo'')],
                  generated_at = ''2024-01-01T00:00:00+00:00'',
                  pull_requests = [pr_stats_of 1, pr_stats_of 3]\<rparr>,
             \<lparr>trace = three_pr_trace client,
              logged = [ErrorProcessingPR (JInt 2) (HTTPError 500)]\<rparr>,
             [(''out.json'',
               output_doc ''2024-01-01T00:00:00+00:00'' [pr_stats_of 1, pr_stats_of 3])])"
proof -
  from process_pr_error [OF assms(2)] have fr: "fs1 = fs0" "pr_errors w1 = pr_errors w0"
    by simp_all
  have step: "process_prs e client out owner repo (before @ pr # rest) [] w fs =
       process_prs e client out owner repo rest acc
         (log_msg w1 (ErrorProcessingPR n err)) fs0"
    using assms fr(1) by (simp add: process_prs_append)
  note run = three_pr_run [of client]
  from step fr run show ?thesis by simp
qed

theorem skip_failed_pr_witness:
  "process_prs three_pr_env (GitHubAPIClient ''t'') (Some ''out.json'') ''octo'' ''demo''
       [pr_json 1] []
       (sent world0 (api_request (GitHubAPIClient ''t'') (PullsUrl ''octo'' ''demo'')
                 (Some (page_params 1 [(''state'', JStr ''all'')]))))
       [(''out.json'', output_doc ''2024-01-01T00:00:00+00:00'' [])] =
     Some (Inr [pr_stats_of 1],
           \<lparr>trace = take 3 (three_pr_trace (GitHubAPIClient ''t'')), logged = []\<rparr>,
           [(''out.json'', output_doc ''2024-01-01T00:00:00+00:00'' [pr_stats_of 1])]) \<and>
   process_pr three_pr_env (GitHubAPIClient ''t'') (Some ''out.json'') ''octo'' ''demo''
       (pr_json 2)
       \<lparr>trace = take 3 (three_pr_trace (GitHubAPIClient ''t'')), logged = []\<rparr>
       [(''out.json'', output_doc ''2024-01-01T00:00:00+00:00'' [pr_stats_of 1])] =
     Some (Inl (HTTPError 500),
           \<lparr>trace = take 4 (three_pr_trace (GitHubAPIClient ''t'')), logged = []\<rparr>,
           [(''out.json'', output_doc ''2024-01-01T00:00:00+00:00'' [pr_stats_of 1])]) \<and>
   py_getitem (pr_json 2) ''number'' = Inr (JInt 2) \<and>
   process_prs three_pr_env (GitHubAPIClient ''t'') (Some ''out.json'') ''octo'' ''demo''
       [pr_json 1, pr_json 2, pr_json 3] []
       (sent world0 (api_request (GitHubAPIClient ''t'') (PullsUrl ''octo'' ''demo'')
                 (Some (page_params 1 [(''state'', JStr ''all'')]))))
       [(''out.json'', output_doc ''2024-01-01T00:00:00+00:00'' [])] =
     process_prs three_pr_env (GitHubAPIClient ''t'') (Some ''out.json'') ''octo'' ''demo''
       [pr_json 3] [pr_stats_of 1]
       \<lparr>trace = take 4 (three_pr_trace (GitHubAPIClient ''t'')),
        logged = [ErrorProcessingPR (JInt 2) (HTTPError 500)]\<rparr>
       [(''out.json'', output_doc ''2024-01-01T00:00:00+00:00'' [pr_stats_of 1])]"
proof -
  let ?c = "GitHubAPIClient ''t''"
  have a: "process_prs three_pr_env ?c (Some ''out.json'') ''octo'' ''demo''
       [pr_json 1] []
       (sent world0 (api_request ?c (PullsUrl ''octo'' ''demo'')
                 (Some (page_params 1 [(''state'', JStr ''all'')]))))
       [(''out.json'', output_doc ''2024-01-01T00:00:00+00:00'' [])] =
     Some (Inr [pr_stats_of 1],
           \<lparr>trace = take 3 (three_pr_trace ?c), logged = []\<rparr>,
           [(''out.json'', output_doc ''2024-01-01T00:00:00+00:00'' [pr_stats_of 1])])"
    by (rule three_pr_loop_1)
  have b: "process_pr three_pr_env ?c (Some ''out.json'') ''octo'' ''demo''
       (pr_json 2)
       \<lparr>trace = take 3 (three_pr_trace ?c), logged = []\<rparr>
       [(''out.json'', output_doc ''2024-01-01T00:00:00+00:00'' [pr_stats_of 1])] =
     Some (Inl (HTTPError 500),
           \<lparr>trace = take 4 (three_pr_trace ?c), logged = []\<rparr>,
           [(''out.json'', output_doc ''2024-01-01T00:00:00+00:00'' [pr_stats_of 1])])"
    by (simp add: three_pr_process_fail sent_def three_pr_trace_def)
  have c: "py_getitem (pr_json 2) ''number'' = Inr (JInt 2)"
    by (rule pr_json_fields)
  from skip_failed_pr [OF a b c, where rest = "[pr_json 3]"] a b c show ?thesis
    by (simp add: log_msg_def del: process_prs.simps)
qed

text \<open>
  Claim C1, as the program has it. Take a run whose loop has got through its first
  \<open>i \<le> n\<close> pull requests, whether or not it goes on to complete. The output file then holds
  the document of the run whose \<^verbatim>\<open>pull_requests\<close> are exactly the serialized statistics
  \<open>dn\<close> of those of the \<open>i\<close> pull requests on which the \<^verbatim>\<open>try\<close> block did not raise, in
  order; the entries and the pull requests that raised add up to \<open>i\<close>, and one error is
  logged for each that raised. At every earlier point \<open>j \<le> i\<close> the file held the document of
  a prefix of \<open>dn\<close>, and \<open>dn\<close> is a prefix of what the file holds when the run completes.
  The next append starts from this document, passes through a torn file and ends with the
  document extended by one entry.
\<close>

theorem incremental_persistence:
  assumes "start_run e client repo_spec (Some path) w fs = Some (Inr (owner, repo, prs), w1, fs1)"
    and "run_upto i e client repo_spec (Some path) w fs = Some (Inr dn, wi, fsi)"
    and "i \<le> length prs" and "j \<le> i"
  shows "map_of fsi path = Some (output_doc (utc_now e (trace w1)) dn) \<and>
     length (try_results e client (Some path) owner repo (take i prs) w1 fs1) = i \<and>
     dn = successes (try_results e client (Some path) owner repo (take i prs) w1 fs1) \<and>
     length dn +
       length (filter isl (try_results e client (Some path) owner repo (take i prs) w1 fs1)) = i \<and>
     length (pr_errors wi) =
       length (pr_errors w1) +
       length (filter isl (try_results e client (Some path) owner repo (take i prs) w1 fs1)) \<and>
     (\<exists>dj wj fsj.
        run_upto j e client repo_spec (Some path) w fs = Some (Inr dj, wj, fsj) \<and>
        map_of fsj path = Some (output_doc (utc_now e (trace w1)) dj) \<and>
        take (length dj) dn = dj) \<and>
     (generate_stats e client repo_spec (Some path) w fs = Some (Inr result, w2, fs2) \<longrightarrow>
        take (length dn) (pull_requests result) = dn \<and>
        map_of fs2 path = Some (output_doc (utc_now e (trace w1)) (pull_requests result))) \<and>
     append_views (Some path) stats fsi =
       [Holds (output_doc (utc_now e (trace w1)) dn), Torn,
        Holds (output_doc (utc_now e (trace w1)) (dn @ [stats]))]"
proof -
  let ?g = "utc_now e (trace w1)"
  let ?run = "process_prs e client (Some path) owner repo"
  let ?rs = "try_results e client (Some path) owner repo (take i prs) w1 fs1"
  from assms(1,2) have pre: "?run (take i prs) [] w1 fs1 = Some (Inr dn, wi, fsi)"
    by (simp add: run_upto_def)
  from start_run_doc [OF assms(1)] have inv0: "map_of fs1 path = Some (output_doc ?g [])" .
  from process_prs_invariant [OF inv0 pre]
  have inv: "map_of fsi path = Some (output_doc ?g dn)" by simp
  from process_prs_try_results [OF pre] assms(3)
  have len: "length ?rs = i" and dn: "dn = successes ?rs"
    and errs: "length (pr_errors wi) = length (pr_errors w1) + length (filter isl ?rs)"
    by simp_all
  from length_successes [of ?rs] len dn
  have cnt: "length dn + length (filter isl ?rs) = i" by simp
  have earlier: "\<exists>dj wj fsj.
        run_upto j e client repo_spec (Some path) w fs = Some (Inr dj, wj, fsj) \<and>
        map_of fsj path = Some (output_doc ?g dj) \<and> take (length dj) dn = dj"
  proof -
    from assms(4) have "take i prs = take j prs @ drop j (take i prs)"
      by (metis append_take_drop_id min.absorb1 take_take)
    with pre have "?run (take j prs @ drop j (take i prs)) [] w1 fs1 = Some (Inr dn, wi, fsi)"
      by simp
    then obtain dj wj fsj where
      a: "?run (take j prs) [] w1 fs1 = Some (Inr dj, wj, fsj)"
      and b: "?run (drop j (take i prs)) dj wj fsj = Some (Inr dn, wi, fsi)"
      unfolding process_prs_append
      by (auto split: option.splits sum.splits prod.splits)
    from process_prs_invariant [OF inv0 a]
    have ij: "map_of fsj path = Some (output_doc ?g dj)" by simp
    from process_prs_invariant [OF ij b] have "take (length dj) dn = dj" by simp
    moreover from assms(1) a
    have "run_upto j e client repo_spec (Some path) w fs = Some (Inr dj, wj, fsj)"
      by (simp add: run_upto_def)
    ultimately show ?thesis using ij by blast
  qed
  have final: "take (length dn) (pull_requests result) = dn \<and>
        map_of fs2 path = Some (output_doc ?g (pull_requests result))"
    if gs: "generate_stats e client repo_spec (Some path) w fs = Some (Inr result, w2, fs2)"
  proof -
    from gs assms(1) have full: "?run prs [] w1 fs1 = Some (Inr (pull_requests result), w2, fs2)"
      by (auto simp: generate_stats_def split: option.splits sum.splits prod.splits)
    have "prs = take i prs @ drop i prs" by simp
    with full have "?run (take i prs @ drop i prs) [] w1 fs1 =
        Some (Inr (pull_requests result), w2, fs2)" by simp
    with pre have "?run (drop i prs) dn wi fsi = Some (Inr (pull_requests result), w2, fs2)"
      unfolding process_prs_append by simp
    from process_prs_invariant [OF inv this] show ?thesis by simp
  qed
  note views = append_views_output_doc [OF inv, of stats]
  from inv len dn cnt errs earlier final views show ?thesis by blast
qed

theorem incremental_persistence_witness:
  "start_run three_pr_env (GitHubAPIClient ''t'') ''octo/demo'' (Some ''out.json'') world0 [] =
     Some (Inr (''octo'', ''demo'', [pr_json 1, pr_json 2, pr_json 3]),
           sent world0 (api_request (GitHubAPIClient ''t'') (PullsUrl ''octo'' ''demo'')
                 (Some (page_params 1 [(''state'', JStr ''all'')]))),
           [(''out.json'', output_doc ''2024-01-01T00:00:00+00:00'' [])]) \<and>
   run_upto 3 three_pr_env (GitHubAPIClient ''t'') ''octo/demo'' (Some ''out.json'') world0 [] =
     Some (Inr [pr_stats_of 1, pr_stats_of 3],
           \<lparr>trace = three_pr_trace (GitHubAPIClient ''t''),
            logged = [ErrorProcessingPR (JInt 2) (HTTPError 500)]\<rparr>,
           [(''out.json'',
             output_doc ''2024-01-01T00:00:00+00:00'' [pr_stats_of 1, pr_stats_of 3])]) \<and>
   (3::nat) \<le> length [pr_json 1, pr_json 2, pr_json 3] \<and> (2::nat) \<le> 3 \<and>
   successes (try_results three_pr_env (GitHubAPIClient ''t'') (Some ''out.json'') ''octo'' ''demo''
       (take 3 [pr_json 1, pr_json 2, pr_json 3])
       (sent world0 (api_request (GitHubAPIClient ''t'') (PullsUrl ''octo'' ''demo'')
                 (Some (page_params 1 [(''state'', JStr ''all'')]))))
       [(''out.json'', output_doc ''2024-01-01T00:00:00+00:00'' [])]) =
     [pr_stats_of 1, pr_stats_of 3] \<and>
   run_upto 2 three_pr_env (GitHubAPIClient ''t'') ''octo/demo'' (Some ''out.json'') world0 [] =
     Some (Inr [pr_stats_of 1],
           \<lparr>trace = take 4 (three_pr_trace (GitHubAPIClient ''t'')),
            logged = [ErrorProcessingPR (JInt 2) (HTTPError 500)]\<rparr>,
           [(''out.json'', output_doc ''2024-01-01T00:00:00+00:00'' [pr_stats_of 1])])"
proof -
  let ?c = "GitHubAPIClient ''t''"
  have le: "(3::nat) \<le> length [pr_json 1, pr_json 2, pr_json 3]" "(2::nat) \<le> 3" by simp_all
  from incremental_persistence [OF three_pr_start [of ?c] three_pr_upto_3 [of ?c] le]
  have "[pr_stats_of 1, pr_stats_of 3] =
      successes (try_results three_pr_env ?c (Some ''out.json'') ''octo'' ''demo''
       (take 3 [pr_json 1, pr_json 2, pr_json 3])
       (sent world0 (api_request ?c (PullsUrl ''octo'' ''demo'')
                 (Some (page_params 1 [(''state'', JStr ''all'')]))))
       [(''out.json'', output_doc ''2024-01-01T00:00:00+00:00'' [])])"
    by blast
  with three_pr_start [of ?c] three_pr_upto_3 [of ?c] three_pr_upto_2 [of ?c] le
  show ?thesis by simp
qed

theorem incremental_persistence_counterexample:
  "entries_after
     (run_upto 2 three_pr_env (GitHubAPIClient ''t'') ''octo/demo'' (Some ''out.json'') world0 [])
     ''out.json'' = Some 1 \<and>
   entries_after
     (run_upto 2 three_pr_env (GitHubAPIClient ''t'') ''octo/demo'' (Some ''out.json'') world0 [])
     ''out.json'' \<noteq> Some 2 \<and>
   append_views (Some ''out.json'') (pr_stats_of 1)
       [(''out.json'', output_doc ''2024-01-01T00:00:00+00:00'' [])] =
     [Holds (output_doc ''2024-01-01T00:00:00+00:00'' []), Torn,
      Holds (output_doc ''2024-01-01T00:00:00+00:00'' [pr_stats_of 1])]"
  by (simp add: three_pr_upto_2 entries_after_def persisted_entries_def output_doc_def
      append_views_def write_views_def append_pr_to_json_def)

text \<open>
  Claim C2, as the program has it. After a run that completes, the output file holds an
  object with the three fields \<^verbatim>\<open>repository\<close>, \<^verbatim>\<open>generated_at\<close> (a string) and
  \<^verbatim>\<open>pull_requests\<close> (the serialized statistics the run returns, in order). The persisted
  \<^verbatim>\<open>repository\<close> is the empty object: \<^verbatim>\<open>name\<close>, \<^verbatim>\<open>owner\<close> and \<^verbatim>\<open>url\<close> are fields of the
  \<^verbatim>\<open>RepositoryStats\<close> the run returns only.
\<close>

theorem persisted_repository:
  assumes "generate_stats e client repo_spec (Some path) w fs = Some (Inr result, w2, fs2)"
  shows "\<exists>g. map_of fs2 path =
         Some (JDict [(''repository'', JDict []),
                      (''generated_at'', JStr g),
                      (''pull_requests'', JList (map asdict (pull_requests result)))]) \<and>
     map fst (repository result) = [''name'', ''owner'', ''url'']"
proof -
  from assms obtain owner repo prs w1 fs1 where
    start: "start_run e client repo_spec (Some path) w fs = Some (Inr (owner, repo, prs), w1, fs1)"
    and full: "process_prs e client (Some path) owner repo prs [] w1 fs1 =
      Some (Inr (pull_requests result), w2, fs2)"
    and rep: "map fst (repository result) = [''name'', ''owner'', ''url'']"
    by (auto simp: generate_stats_def split: option.splits sum.splits prod.splits)
  from process_prs_invariant [OF start_run_doc [OF start] full] rep show ?thesis
    by (auto simp: output_doc_def)
qed

theorem persisted_repository_witness:
  "generate_stats three_pr_env (GitHubAPIClient ''t'') ''octo/demo'' (Some ''out.json'') world0 [] =
     Some (Inr \<lparr>repository =
                  [(''name'', ''demo''), (''owner'', ''octo''),
                   (''url'', ''https://github.com/octo/demo'')],
                generated_at = ''2024-01-01T00:00:00+00:00'',
                pull_requests = [pr_stats_of 1, pr_stats_of 3]\<rparr>,
           \<lparr>trace = three_pr_trace (GitHubAPIClient ''t''),
            logged = [ErrorProcessingPR (JInt 2) (HTTPError 500)]\<rparr>,
           [(''out.json'',
             JDict [(''repository'', JDict []),
                    (''generated_at'', JStr ''2024-01-01T00:00:00+00:00''),
                    (''pull_requests'', JList [asdict (pr_stats_of 1), asdict (pr_stats_of 3)])])])"
  using persisted_repository [OF three_pr_run [of "GitHubAPIClient ''t''"]]
  by (simp add: three_pr_run output_doc_def)

end
